theory Spec2Isabelle
  imports Complex_Main
begin

section \<open>Values, arrays and exceptions\<close>

text \<open>
  The sources are Python 2 scripts over numpy arrays. A one-dimensional array is a list,
  a two-dimensional array is the list of its rows (all of one length). Floating-point
  numbers are idealised as reals wherever only addition and copying are involved
  (\<open>MCerrst.py\<close>, \<open>plotMCres.py\<close>); where the code tests for NaN
  (\<open>AVHRR_to_updated_spec.py\<close>) a float is \<open>NaN\<close> or a finite value. A raised
  exception is the \<open>Inl\<close> of a sum type; the rest of a computation is skipped
  by \<open>bindE\<close>.
\<close>

datatype py_error = IndexError | KeyError | ValueError | NameError | IOError

datatype flt = NaN | Fin real

type_synonym matrix = "real list list"

definition bindE :: "py_error + 'a \<Rightarrow> ('a \<Rightarrow> py_error + 'b) \<Rightarrow> py_error + 'b" where
  "bindE m f = (case m of Inl e \<Rightarrow> Inl e | Inr v \<Rightarrow> f v)"

text \<open>Reading a local name: a NameError when nothing was bound to it.\<close>

definition read_name :: "'a option \<Rightarrow> py_error + 'a" where
  "read_name v = (case v of None \<Rightarrow> Inl NameError | Some x \<Rightarrow> Inr x)"

text \<open>\<open>M.T\<close> for a two-dimensional array: entry \<open>(j, i)\<close> of the result is entry \<open>(i, j)\<close> of \<open>M\<close>.\<close>

definition T :: "matrix \<Rightarrow> matrix" where
  "T M = (case M of [] \<Rightarrow> [] | r0 # _ \<Rightarrow> map (\<lambda>j. map (\<lambda>row. row ! j) M) [0..<length r0])"

text \<open>\<open>M[:, k]\<close>: column \<open>k\<close>; IndexError when the array has no such column.\<close>

definition col :: "matrix \<Rightarrow> nat \<Rightarrow> py_error + real list" where
  "col M k = (if list_all (\<lambda>row. k < length row) M then Inr (map (\<lambda>row. row ! k) M) else Inl IndexError)"

text \<open>\<open>M[:, a:b]\<close>: a slice never raises, it is cut to the columns that exist.\<close>

definition cols :: "matrix \<Rightarrow> nat \<Rightarrow> nat \<Rightarrow> matrix" where
  "cols M a b = map (\<lambda>row. take (b - a) (drop a row)) M"

text \<open>\<open>M[i, j]\<close> for non-negative \<open>i\<close>, \<open>j\<close>.\<close>

definition cell :: "'a list list \<Rightarrow> nat \<Rightarrow> nat \<Rightarrow> py_error + 'a" where
  "cell M i j = (if i < length M \<and> j < length (M ! i) then Inr (M ! i ! j) else Inl IndexError)"

text \<open>
  An operation on two arrays goes elementwise after numpy's broadcasting: along an axis
  the two lengths are equal, or one of them is 1 and that operand is repeated along the
  axis; anything else is a ValueError. \<open>bc_len\<close> is the length of the result along
  an axis, \<open>stretch\<close> repeats the single element. An array without rows is the empty
  list (it keeps no number of columns), and so is the result when it has no rows.
\<close>

definition bc_len :: "nat \<Rightarrow> nat \<Rightarrow> nat option" where
  "bc_len a b = (if a = b then Some a else if a = 1 then Some b else if b = 1 then Some a else None)"

definition stretch :: "nat \<Rightarrow> 'a list \<Rightarrow> 'a list" where
  "stretch n xs = (if length xs = n then xs else replicate n (xs ! 0))"

definition bc_vec :: "(real \<Rightarrow> real \<Rightarrow> real) \<Rightarrow> real list \<Rightarrow> real list \<Rightarrow> py_error + real list" where
  "bc_vec f a b =
     (case bc_len (length a) (length b) of
        None \<Rightarrow> Inl ValueError
      | Some n \<Rightarrow> Inr (map2 f (stretch n a) (stretch n b)))"

definition bc_mat :: "(real \<Rightarrow> real \<Rightarrow> real) \<Rightarrow> matrix \<Rightarrow> matrix \<Rightarrow> py_error + matrix" where
  "bc_mat f A B =
     (case bc_len (length A) (length B) of
        None \<Rightarrow> Inl ValueError
      | Some n \<Rightarrow>
          if n = 0 then Inr []
          else (case bc_len (length (A ! 0)) (length (B ! 0)) of
                  None \<Rightarrow> Inl ValueError
                | Some c \<Rightarrow>
                    Inr (map2 (\<lambda>a b. map2 f (stretch c a) (stretch c b))
                           (stretch n A) (stretch n B))))"

text \<open>\<open>a + b\<close> for one-dimensional and for two-dimensional arrays.\<close>

definition add_vec :: "real list \<Rightarrow> real list \<Rightarrow> py_error + real list" where
  "add_vec a b = bc_vec (+) a b"

definition add_mat :: "matrix \<Rightarrow> matrix \<Rightarrow> py_error + matrix" where
  "add_mat A B = bc_mat (+) A B"

text \<open>\<open>M[:, k] = v\<close>: every row gets \<open>v\<close> in column \<open>k\<close>.\<close>

definition set_col :: "matrix \<Rightarrow> nat \<Rightarrow> real \<Rightarrow> py_error + matrix" where
  "set_col M k v =
     (if list_all (\<lambda>row. k < length row) M then Inr (map (\<lambda>row. row[k := v]) M) else Inl IndexError)"

text \<open>
  \<open>M[i, 0:p] = b\<close>: the first \<open>p\<close> entries of row \<open>i\<close> become \<open>b\<close>; a
  one-element \<open>b\<close> is repeated, any other length than \<open>p\<close> is a ValueError.
\<close>

definition set_row_slice :: "matrix \<Rightarrow> nat \<Rightarrow> nat \<Rightarrow> real list \<Rightarrow> py_error + matrix" where
  "set_row_slice M i p b =
     (if \<not> i < length M then Inl IndexError
      else let q = min p (length (M ! i))
           in if length b = q then Inr (M[i := b @ drop q (M ! i)])
              else if length b = 1 then Inr (M[i := replicate q (b ! 0) @ drop q (M ! i)])
              else Inl ValueError)"

text \<open>\<open>M[i, j] = v\<close>.\<close>

definition set_cell :: "matrix \<Rightarrow> nat \<Rightarrow> nat \<Rightarrow> real \<Rightarrow> py_error + matrix" where
  "set_cell M i j v =
     (if i < length M \<and> j < length (M ! i) then Inr (M[i := (M ! i)[j := v]]) else Inl IndexError)"

text \<open>\<open>A[idx]\<close> and \<open>A[idx, :]\<close> with a list of indices: IndexError when one is out of range.\<close>

definition take_idx :: "'a list \<Rightarrow> nat list \<Rightarrow> py_error + 'a list" where
  "take_idx xs idx = (if list_all (\<lambda>i. i < length xs) idx then Inr (map (\<lambda>i. xs ! i) idx) else Inl IndexError)"

text \<open>
  \<open>numpy.unique(a, return_index=True, return_counts=True)\<close>: the sorted distinct
  values, the index of the first occurrence of each, and the number of occurrences of
  each.
\<close>

fun first_index :: "'a list \<Rightarrow> 'a \<Rightarrow> nat" where
  "first_index [] v = 0"
| "first_index (x # xs) v = (if x = v then 0 else Suc (first_index xs v))"

definition unique :: "real list \<Rightarrow> real list \<times> nat list \<times> nat list" where
  "unique a =
     (let u = sort (remdups a)
      in (u, map (first_index a) u, map (count_list a) u))"

text \<open>\<open>os.path.join\<close> of a directory that does not end in a separator and a relative name.\<close>

definition pjoin :: "string \<Rightarrow> string \<Rightarrow> string \<Rightarrow> string" where
  "pjoin sep a b = a @ sep @ b"

section \<open>The Monte Carlo script \<open>MCerrst.py\<close>\<close>

text \<open>
  The script imports \<open>readHD\<close> (version with nine results), \<open>errStruct\<close>,
  \<open>harFun\<close> and \<open>unpFun\<close>, none of which is among the sources. Their functions are
  the fields of a record \<open>world\<close>, each a function that returns a value or raises.
  Everything the script itself does is modelled below: it threads the state of the
  random generator, the trial table \<open>mcb\<close> and the log of the external calls it makes,
  each with its arguments and its result.
\<close>

record odr_output =
  odr_beta :: "real list"
  odr_cov_beta :: matrix
  odr_y :: "real list"
  odr_xplus :: matrix
  odr_delta :: matrix
  odr_eps :: "real list"
  odr_info :: int

record avhrr =
  nocoefs :: nat
  novars :: nat
  nosensors :: nat
  sslab :: "string list"
  preHcoef :: "string \<rightharpoonup> real list"

text \<open>The nine results of \<open>rhd.rHDpair\<close>; a row of \<open>csUr\<close> or \<open>cictUr\<close> is of a type \<open>'u\<close> the script never looks into.\<close>

record 'u pair_data =
  d_rsp :: int
  d_Im :: "int list list"
  d_Hd :: matrix
  d_Hr :: matrix
  d_Hs :: matrix
  d_corIdx :: "real list"
  d_corLen :: "real list"
  d_csUr :: "'u list"
  d_cictUr :: "'u list"

record ('r, 'u) world =
  os_sep :: string
  avhrrNx :: avhrr
  rHDpair :: "string \<Rightarrow> string \<Rightarrow> py_error + 'u pair_data"
  resetHs :: "matrix \<Rightarrow> int \<Rightarrow> py_error + matrix"
  odrP :: "matrix \<Rightarrow> matrix \<Rightarrow> real list \<Rightarrow> avhrr \<Rightarrow> int list option \<Rightarrow> int list option \<Rightarrow>
           matrix option \<Rightarrow> py_error + odr_output"
  odr4MC :: "matrix \<Rightarrow> real list \<Rightarrow> matrix \<Rightarrow> real list \<Rightarrow> avhrr \<Rightarrow> int list option \<Rightarrow>
             int list option \<Rightarrow> matrix option \<Rightarrow> py_error + odr_output"
  genErr :: "'r \<Rightarrow> matrix \<Rightarrow> real \<Rightarrow> real \<Rightarrow> 'u list \<Rightarrow> 'u list \<Rightarrow> real list \<Rightarrow> real list \<Rightarrow>
             nat list \<Rightarrow> py_error + (matrix \<times> 'r)"
  savetxt :: "string \<Rightarrow> matrix \<Rightarrow> string \<Rightarrow> py_error + unit"

text \<open>
  An entry of the log: the arguments of a call in the order of the source (the sensor
  model \<open>avhrrNx\<close>, always the same, left out) and, last, what the call returned.
\<close>

datatype 'u call =
    Call_odrP (a_Hd: matrix) (a_Hr: matrix) (a_beta0: "real list") (a_fixb: "int list option")
      (a_fixx: "int list option") (a_Hs: "matrix option") (a_out: odr_output)
  | Call_genErr (g_Hr: matrix) (g_sLict: real) (g_sTo: real) (g_rCSar: "'u list")
      (g_rCICTar: "'u list") (g_slt: "real list") (g_corLen: "real list") (g_mcnt: "nat list")
      (g_errStr: matrix)
  | Call_odr4MC (a_X: matrix) (a_Y: "real list") (a_Hr: matrix) (a_beta0: "real list")
      (a_fixb: "int list option") (a_fixx: "int list option") (a_Hs: "matrix option")
      (a_out: odr_output)
  | Call_savetxt (sv_fn: string) (sv_table: matrix) (sv_delimiter: string)

text \<open>The calls of the error generator and the fits of the trials in a log, in order.\<close>

definition gens :: "'u call list \<Rightarrow> 'u call list" where
  "gens lg = filter is_Call_genErr lg"

definition fits :: "'u call list \<Rightarrow> 'u call list" where
  "fits lg = filter is_Call_odr4MC lg"

definition saves :: "'u call list \<Rightarrow> 'u call list" where
  "saves lg = filter is_Call_savetxt lg"

text \<open>
  The row the two assignments of lines 130 and 131 leave in a table with \<open>p + 1\<close>
  columns: the coefficients (a single one repeated \<open>p\<close> times) and the reason for
  halting.
\<close>

definition table_row :: "nat \<Rightarrow> odr_output \<Rightarrow> real list" where
  "table_row p mcodr =
     (if length (odr_beta mcodr) = p then odr_beta mcodr else replicate p (odr_beta mcodr ! 0))
     @ [real_of_int (odr_info mcodr)]"

text \<open>The values the trial loop reads but never changes.\<close>

record 'u mc_env =
  e_notime :: bool
  e_p :: nat
  e_X :: matrix
  e_Y :: "real list"
  e_Hr :: matrix
  e_Hs :: matrix
  e_sLict :: real
  e_sTo :: real
  e_rCSar :: "'u list"
  e_rCICTar :: "'u list"
  e_slt :: "real list"
  e_corLen :: "real list"
  e_mcnt :: "nat list"
  e_bodr :: "real list"
  e_fixb :: "int list option"
  e_fixx :: "int list option"

record ('r, 'u) mc_state =
  s_rng :: 'r
  s_mcb :: matrix
  s_log :: "'u call list"
  s_mcodr :: "odr_output option"

record 'u run_result =
  r_log :: "'u call list"
  r_mcb :: matrix
  r_exect :: real

definition datadir :: string where
  "datadir = ''D:'' @ [CHR 0x5C] @ ''Projects'' @ [CHR 0x5C] @ ''FIDUCEO'' @ [CHR 0x5C] @ ''Data''
     @ [CHR 0x5C] @ ''Simulated''"

definition filelist :: "string list" where
  "filelist = [''m02_n19.nc'', ''m02_n18.nc'', ''m02_n17.nc'', ''m02_n16.nc'', ''m02_n15.nc'']"

text \<open>\<open>ones(k, dtype=int)\<close>, its last entry set to 0, as a list: IndexError for \<open>k = 0\<close>.\<close>

definition ones_last0 :: "nat \<Rightarrow> py_error + int list" where
  "ones_last0 k = (if k = 0 then Inl IndexError else Inr ((replicate k 1)[k - 1 := 0]))"

text \<open>\<open>numpy.empty([n, k])\<close>: an array whose entries are whatever the memory held, here \<open>g i j\<close>.\<close>

definition empty_array :: "(nat \<Rightarrow> nat \<Rightarrow> real) \<Rightarrow> nat \<Rightarrow> nat \<Rightarrow> matrix" where
  "empty_array g n k = map (\<lambda>i. map (g i) [0..<k]) [0..<n]"

text \<open>Lines 120 and 121: the trial's data, the best estimates plus the errors.\<close>

definition perturb :: "matrix \<Rightarrow> real list \<Rightarrow> matrix \<Rightarrow> py_error + (matrix \<times> real list)" where
  "perturb X Y errStr =
     bindE (add_mat (T X) (cols errStr 1 6)) (\<lambda>Xdt.
     bindE (col errStr 0) (\<lambda>err0.
     bindE (add_vec Y err0) (\<lambda>Y0.
     bindE (col errStr 6) (\<lambda>err6.
     bindE (add_vec Y0 err6) (\<lambda>Ydt.
       Inr (Xdt, Ydt))))))"

text \<open>Lines 124 to 127: the fit of a trial, and its entry in the log.\<close>

definition trial_fit :: "('r, 'u) world \<Rightarrow> 'u mc_env \<Rightarrow> matrix \<Rightarrow> real list \<Rightarrow> py_error + odr_output" where
  "trial_fit w e Xdt Ydt =
     (if e_notime e
      then odr4MC w Xdt Ydt (e_Hr e) (e_bodr e) (avhrrNx w) None None None
      else odr4MC w Xdt Ydt (e_Hr e) (e_bodr e) (avhrrNx w) (e_fixb e) (e_fixx e) (Some (e_Hs e)))"

definition log_odr4MC :: "'u mc_env \<Rightarrow> matrix \<Rightarrow> real list \<Rightarrow> odr_output \<Rightarrow> 'u call" where
  "log_odr4MC e Xdt Ydt mcodr =
     (if e_notime e
      then Call_odr4MC Xdt Ydt (e_Hr e) (e_bodr e) None None None mcodr
      else Call_odr4MC Xdt Ydt (e_Hr e) (e_bodr e) (e_fixb e) (e_fixx e) (Some (e_Hs e)) mcodr)"

definition log_genErr :: "'u mc_env \<Rightarrow> matrix \<Rightarrow> 'u call" where
  "log_genErr e errStr =
     Call_genErr (e_Hr e) (e_sLict e) (e_sTo e) (e_rCSar e) (e_rCICTar e) (e_slt e) (e_corLen e)
       (e_mcnt e) errStr"

text \<open>Lines 130 and 131: the coefficients and the reason for halting go into row \<open>i\<close>.\<close>

definition store :: "matrix \<Rightarrow> nat \<Rightarrow> nat \<Rightarrow> odr_output \<Rightarrow> py_error + matrix" where
  "store mcb i p mcodr =
     bindE (set_row_slice mcb i p (odr_beta mcodr)) (\<lambda>mcb1.
       set_cell mcb1 i p (real_of_int (odr_info mcodr)))"

text \<open>One pass of the body of \<open>for i in range(notr)\<close> (lines 112 to 131).\<close>

definition mc_trial :: "('r, 'u) world \<Rightarrow> 'u mc_env \<Rightarrow> nat \<Rightarrow> ('r, 'u) mc_state \<Rightarrow> py_error + ('r, 'u) mc_state" where
  "mc_trial w e i s =
     bindE (genErr w (s_rng s) (e_Hr e) (e_sLict e) (e_sTo e) (e_rCSar e) (e_rCICTar e) (e_slt e)
              (e_corLen e) (e_mcnt e)) (\<lambda>(errStr, rng').
     bindE (perturb (e_X e) (e_Y e) errStr) (\<lambda>(Xdt, Ydt).
     bindE (trial_fit w e Xdt Ydt) (\<lambda>mcodr.
     bindE (store (s_mcb s) i (e_p e) mcodr) (\<lambda>mcb2.
       Inr \<lparr>s_rng = rng', s_mcb = mcb2,
            s_log = s_log s @ [log_genErr e errStr, log_odr4MC e Xdt Ydt mcodr],
            s_mcodr = Some mcodr\<rparr>))))"

fun mc_loop :: "('r, 'u) world \<Rightarrow> 'u mc_env \<Rightarrow> nat list \<Rightarrow> ('r, 'u) mc_state \<Rightarrow> py_error + ('r, 'u) mc_state" where
  "mc_loop w e [] s = Inr s"
| "mc_loop w e (i # rest) s = bindE (mc_trial w e i s) (mc_loop w e rest)"

text \<open>
  What one trial did, for the statements about the loop: the error matrix it drew, the
  data it made of it, and the fit. \<open>trial_entries\<close> are its two entries in the log,
  \<open>trial_ok\<close> says that the data and the fit are those of lines 120 to 127.
\<close>

type_synonym trial = "matrix \<times> matrix \<times> real list \<times> odr_output"

definition trial_err :: "trial \<Rightarrow> matrix" where
  "trial_err t = (case t of (errStr, Xdt, Ydt, mcodr) \<Rightarrow> errStr)"

definition trial_X :: "trial \<Rightarrow> matrix" where
  "trial_X t = (case t of (errStr, Xdt, Ydt, mcodr) \<Rightarrow> Xdt)"

definition trial_Y :: "trial \<Rightarrow> real list" where
  "trial_Y t = (case t of (errStr, Xdt, Ydt, mcodr) \<Rightarrow> Ydt)"

definition trial_out :: "trial \<Rightarrow> odr_output" where
  "trial_out t = (case t of (errStr, Xdt, Ydt, mcodr) \<Rightarrow> mcodr)"

definition trial_entries :: "'u mc_env \<Rightarrow> trial \<Rightarrow> 'u call list" where
  "trial_entries e t =
     [log_genErr e (trial_err t), log_odr4MC e (trial_X t) (trial_Y t) (trial_out t)]"

definition trial_ok :: "('r, 'u) world \<Rightarrow> 'u mc_env \<Rightarrow> trial \<Rightarrow> bool" where
  "trial_ok w e t =
     (perturb (e_X e) (e_Y e) (trial_err t) = Inr (trial_X t, trial_Y t) \<and>
      trial_fit w e (trial_X t) (trial_Y t) = Inr (trial_out t) \<and>
      (length (odr_beta (trial_out t)) = e_p e \<or> length (odr_beta (trial_out t)) = 1))"

text \<open>
  Lines 41 to 75: read the data and make the best-estimate fit. The result is the data
  as the rest of the script sees it (\<open>Hr\<close> changed in the first branch, \<open>Hs\<close> replaced in
  the second), the two fix-masks when there are any, the fit, its log entry and the name
  of the output file.
\<close>

definition best_fit :: "('r, 'u) world \<Rightarrow> bool \<Rightarrow> string \<Rightarrow> string \<Rightarrow> real list \<Rightarrow> nat \<Rightarrow> nat \<Rightarrow>
    py_error + ('u pair_data \<times> int list option \<times> int list option \<times> odr_output \<times> 'u call \<times> string)" where
  "best_fit w notime ncfile s2 beta0 p m =
     (if notime then
        bindE (rHDpair w (pjoin (os_sep w) datadir ''newSim_notime'') ncfile) (\<lambda>d.
        bindE (set_col (d_Hr d) 5 1) (\<lambda>Hr1.
        bindE (odrP w (d_Hd d) Hr1 beta0 (avhrrNx w) None None None) (\<lambda>podr.
          Inr (d\<lparr>d_Hr := Hr1\<rparr>, None, None, podr,
               Call_odrP (d_Hd d) Hr1 beta0 None None None podr,
               s2 @ ''_notd_mcerrst_beta.txt''))))
      else
        bindE (rHDpair w datadir ncfile) (\<lambda>d.
        bindE (resetHs w (d_Hs d) (d_rsp d)) (\<lambda>Hs1.
        bindE (ones_last0 p) (\<lambda>fixb.
        bindE (ones_last0 m) (\<lambda>fixx.
        bindE (odrP w (d_Hd d) (d_Hr d) beta0 (avhrrNx w) (Some fixb) (Some fixx) (Some Hs1)) (\<lambda>podr.
          Inr (d\<lparr>d_Hs := Hs1\<rparr>, Some fixb, Some fixx, podr,
               Call_odrP (d_Hd d) (d_Hr d) beta0 (Some fixb) (Some fixx) (Some Hs1) podr,
               s2 @ ''_mcerrst_beta.txt'')))))))"

text \<open>Lines 83 to 97: what the trial loop reads, put together.\<close>

definition make_env :: "bool \<Rightarrow> nat \<Rightarrow> 'u pair_data \<Rightarrow> int list option \<Rightarrow> int list option \<Rightarrow> odr_output \<Rightarrow>
    real \<Rightarrow> real \<Rightarrow> 'u list \<Rightarrow> 'u list \<Rightarrow> real list \<Rightarrow> nat list \<Rightarrow> 'u mc_env" where
  "make_env notime p d fixb fixx podr sLict sTo rCSar rCICTar slt mcnt =
     \<lparr>e_notime = notime, e_p = p, e_X = odr_xplus podr, e_Y = odr_y podr,
      e_Hr = d_Hr d, e_Hs = d_Hs d, e_sLict = sLict, e_sTo = sTo,
      e_rCSar = rCSar, e_rCICTar = rCICTar, e_slt = slt, e_corLen = d_corLen d,
      e_mcnt = mcnt, e_bodr = odr_beta podr, e_fixb = fixb, e_fixx = fixx\<rparr>"

text \<open>Lines 107 and 108: the state in which the loop starts.\<close>

definition init_state :: "'r \<Rightarrow> (nat \<Rightarrow> nat \<Rightarrow> real) \<Rightarrow> nat \<Rightarrow> nat \<Rightarrow> 'u call \<Rightarrow> ('r, 'u) mc_state" where
  "init_state rng0 g notr p c0 =
     \<lparr>s_rng = rng0, s_mcb = empty_array g notr (p + 1), s_log = [c0], s_mcodr = None\<rparr>"

text \<open>
  Lines 30 to 97: the sensor model, the data, the best-estimate fit and the scanline
  groups. The result is what the loop reads, the log entry of the best-estimate fit and
  the name of the output file.
\<close>

definition prepare :: "('r, 'u) world \<Rightarrow> bool \<Rightarrow> py_error + ('u mc_env \<times> 'u call \<times> string)" where
  "prepare w notime =
     (let p0 = nocoefs (avhrrNx w); m = novars (avhrrNx w); inCoef = preHcoef (avhrrNx w);
          ncfile = filelist ! 4; s2 = take 3 (drop 4 ncfile)
      in case inCoef s2 of None \<Rightarrow> Inl KeyError | Some coefs \<Rightarrow>
         let beta0 = take p0 coefs
         in bindE (best_fit w notime ncfile s2 beta0 p0 m) (\<lambda>(d, fixb, fixx, podr, c0, fn).
            bindE (cell (d_Im d) 0 2) (\<lambda>noMU.
            bindE (cell (d_Hs d) 0 4) (\<lambda>sLict.
            bindE (cell (d_Hs d) 0 5) (\<lambda>sTo.
            case unique (d_corIdx d) of (slt, midx, mcnt) \<Rightarrow>
            bindE (take_idx (d_csUr d) midx) (\<lambda>rCSar.
            bindE (take_idx (d_cictUr d) midx) (\<lambda>rCICTar.
              Inr (make_env notime (length beta0) d fixb fixx podr sLict sTo rCSar rCICTar slt mcnt,
                   c0, fn))))))))"

text \<open>
  Lines 133 to 141: the last fit is printed (a NameError when there was no trial), the
  table is written, the time taken is computed.
\<close>

definition finish :: "('r, 'u) world \<Rightarrow> string \<Rightarrow> ('r, 'u) mc_state \<Rightarrow> real \<Rightarrow> real \<Rightarrow> py_error + 'u run_result" where
  "finish w fn s st et =
     bindE (read_name (s_mcodr s)) (\<lambda>mcodr.
     let fn1 = pjoin (os_sep w) (pjoin (os_sep w) datadir ''Results'') fn
     in bindE (savetxt w fn1 (s_mcb s) '','') (\<lambda>_.
        Inr \<lparr>r_log = s_log s @ [Call_savetxt fn1 (s_mcb s) '',''],
             r_mcb = s_mcb s, r_exect = et - st\<rparr>))"

text \<open>
  Lines 21 to 141 of the script, for a value of \<open>notime\<close> and a number of trials
  \<open>notr\<close>. \<open>rng0\<close> is the state of the random generator when the script starts,
  \<open>g\<close> the contents of the memory \<open>numpy.empty\<close> hands out, \<open>st\<close> and \<open>et\<close> the two
  readings of the clock. The plots after line 141 are not part of the model.
\<close>

definition script :: "('r, 'u) world \<Rightarrow> bool \<Rightarrow> nat \<Rightarrow> 'r \<Rightarrow> (nat \<Rightarrow> nat \<Rightarrow> real) \<Rightarrow> real \<Rightarrow> real \<Rightarrow>
    py_error + 'u run_result" where
  "script w notime notr rng0 g st et =
     bindE (prepare w notime) (\<lambda>(e, c0, fn).
     bindE (mc_loop w e [0..<notr] (init_state rng0 g notr (e_p e) c0)) (\<lambda>s.
       finish w fn s st et))"

text \<open>The script as it stands: \<open>notime = False\<close>, \<open>notr = 3\<close>.\<close>

definition MCerrst :: "('r, 'u) world \<Rightarrow> 'r \<Rightarrow> (nat \<Rightarrow> nat \<Rightarrow> real) \<Rightarrow> real \<Rightarrow> real \<Rightarrow> py_error + 'u run_result" where
  "MCerrst w rng0 g st et = script w False 3 rng0 g st et"

section \<open>The error generator and the reset of the systematic uncertainties, from the specification\<close>

text \<open>
  Modelled from the spec: \<open>errStruct.genErr\<close>, which the script calls on line 118 and
  which is not among the sources. It has the arguments of that call, after the source of
  standard-normal draws. Section 4.2 of the specification gives its algorithm; section
  4.1 says which variable has which kind of uncertainty. The columns of the error matrix
  are those of the harmonisation data: 0 reference radiance, 1 space counts, 2
  internal-target counts, 3 Earth counts, 4 internal-target radiance, 5 orbit
  temperature, 6 adjustment K. The draws are a sequence \<open>z\<close>; with \<open>G\<close> groups and
  \<open>n\<close> records the draws \<open>z 0 .. z (G - 1)\<close> are those of the groups for the space
  counts, the next \<open>G\<close> those for the internal-target counts, the next \<open>7 * n\<close> the
  per-record draws, and the last two the per-trial draws for the systematic errors of
  columns 4 and 5.
\<close>

text \<open>
  Modelled from the spec: the scanline group of a record. The call passes the unique
  scanline indices and the number of records of each, not the scanline index of every
  record, so the group of a record is read off the counts in the order of the records:
  the first \<open>mcnt[0]\<close> records are group 0, the next \<open>mcnt[1]\<close> group 1, and so on.
\<close>

fun group_of :: "nat list \<Rightarrow> nat \<Rightarrow> nat" where
  "group_of [] r = 0"
| "group_of (c # cs) r = (if r < c then 0 else Suc (group_of cs (r - c)))"

text \<open>
  Modelled from the spec: step 1 of section 4.2, one draw per scanline group for the
  space counts and one for the internal-target counts, scaled by the group's scanline
  uncertainty and the same for every record of the group.
\<close>

definition scanline_component ::
  "(nat \<Rightarrow> real) \<Rightarrow> nat \<Rightarrow> real list \<Rightarrow> real list \<Rightarrow> nat list \<Rightarrow> nat \<Rightarrow> nat \<Rightarrow> real" where
  "scanline_component z G rCSar rCICTar mcnt r c =
     (let grp = group_of mcnt r
      in if c = 1 then rCSar ! grp * z grp
         else if c = 2 then rCICTar ! grp * z (G + grp)
         else 0)"

text \<open>
  Modelled from the spec: step 2 of section 4.2, one draw per record for each variable
  with a record-level random uncertainty, scaled by that uncertainty (\<open>Hr\<close>). The
  space counts and internal-target counts have none (section 4.1: theirs is
  scanline-level).
\<close>

definition independent_component :: "(nat \<Rightarrow> real) \<Rightarrow> nat \<Rightarrow> matrix \<Rightarrow> nat \<Rightarrow> nat \<Rightarrow> real" where
  "independent_component z G Hr r c =
     (if c = 1 \<or> c = 2 then 0 else Hr ! r ! c * z (2 * G + 7 * r + c))"

text \<open>
  Modelled from the spec: step 3 of section 4.2, one draw per trial for the
  internal-target radiance and for the orbit temperature, scaled by the systematic
  uncertainty and the same for every record.
\<close>

definition systematic_component :: "(nat \<Rightarrow> real) \<Rightarrow> nat \<Rightarrow> nat \<Rightarrow> real \<Rightarrow> real \<Rightarrow> nat \<Rightarrow> real" where
  "systematic_component z G n sLict sTo c =
     (if c = 4 then sLict * z (2 * G + 7 * n)
      else if c = 5 then sTo * z (2 * G + 7 * n + 1)
      else 0)"

text \<open>
  Modelled from the spec: step 4 of section 4.2, the error matrix is the sum of the three
  contributions; with it the draws that are left. Mismatched shapes (section 7: a
  configuration error) are a ValueError: seven columns of random uncertainty per record,
  one count and one pair of scanline uncertainties per group, the counts adding up to
  the number of records. The length of the averaging window \<open>corLen\<close> plays no part in
  the algorithm of section 4.2.
\<close>

definition genErr_spec ::
  "(nat \<Rightarrow> real) \<Rightarrow> matrix \<Rightarrow> real \<Rightarrow> real \<Rightarrow> real list \<Rightarrow> real list \<Rightarrow> real list \<Rightarrow> real list \<Rightarrow>
   nat list \<Rightarrow> py_error + (matrix \<times> (nat \<Rightarrow> real))" where
  "genErr_spec z Hr sLict sTo rCSar rCICTar slt corLen mcnt =
     (let n = length Hr; G = length slt
      in if length mcnt = G \<and> length rCSar = G \<and> length rCICTar = G \<and> sum_list mcnt = n \<and>
            list_all (\<lambda>row. length row = 7) Hr
         then Inr (map (\<lambda>r. map (\<lambda>c. independent_component z G Hr r c
                                      + scanline_component z G rCSar rCICTar mcnt r c
                                      + systematic_component z G n sLict sTo c) [0..<7]) [0..<n],
                   \<lambda>k. z (k + (2 * G + 7 * n + 2)))
         else Inl ValueError)"

text \<open>
  Modelled from the spec: \<open>readHD.resetHs\<close>, which the script calls on line 58 and
  which is not among the sources (the \<open>readHD\<close> that is has no such function).
  Sections 4.1 and 7 of the specification: a systematic uncertainty that is declared 0
  for a variable that needs a nonzero one is replaced by a nonzero placeholder. Which
  variables need one and the value of the placeholder the specification leaves open:
  they are the parameters \<open>required\<close> (on column numbers) and \<open>placeholder\<close>. The
  specification gives no part to the second argument of the call.
\<close>

definition resetHs_spec :: "(nat \<Rightarrow> bool) \<Rightarrow> real \<Rightarrow> matrix \<Rightarrow> int \<Rightarrow> py_error + matrix" where
  "resetHs_spec required placeholder Hs rsp =
     Inr (map (\<lambda>row. map (\<lambda>c. if required c \<and> row ! c = 0 then placeholder else row ! c)
                         [0..<length row]) Hs)"

section \<open>\<open>plotSDfit\<close> of \<open>plotMCres.py\<close>\<close>

text \<open>
  The plots go through \<open>visFun.resLfit\<close>, which is not among the sources: a call of it
  is an entry of the list of plots the function returns. \<open>measEq\<close> is the measurement
  equation of the sensor model, \<open>pick n k\<close> the \<open>k\<close> indices that
  \<open>random.sample\<close> draws from \<open>range(n)\<close>. A local name that was never bound
  is \<open>None\<close>.
\<close>

record plot =
  pl_y :: "real list"
  pl_x :: "real list"
  pl_xlabel :: string
  pl_ylabel :: string
  pl_title :: string

text \<open>\<open>random.sample(range(noMU), nobj)\<close>: ValueError unless \<open>0 \<le> nobj \<le> len(range(noMU))\<close>.\<close>

definition sample_range :: "(nat \<Rightarrow> nat \<Rightarrow> nat list) \<Rightarrow> int \<Rightarrow> int \<Rightarrow> py_error + nat list" where
  "sample_range pick noMU nobj =
     (let n = (if noMU < 0 then 0 else noMU)
      in if 0 \<le> nobj \<and> nobj \<le> n then Inr (pick (nat n) (nat nobj)) else Inl ValueError)"

text \<open>
  \<open>a / b\<close> and \<open>divide(A, B)\<close>, with broadcasting. Where a divisor is 0 numpy gives
  an infinity or a NaN and a warning; the value the model has there is used by no
  theorem.
\<close>

definition div_vec :: "real list \<Rightarrow> real list \<Rightarrow> py_error + real list" where
  "div_vec a b = bc_vec (/) a b"

definition div_mat :: "matrix \<Rightarrow> matrix \<Rightarrow> py_error + matrix" where
  "div_mat A B = bc_mat (/) A B"

text \<open>\<open>vis.resLfit(yv[selMU], xv[selMU], xlabel, ylabel, title)\<close>, appended to the plots so far.\<close>

definition resLfit :: "plot list \<Rightarrow> real list \<Rightarrow> real list \<Rightarrow> nat list \<Rightarrow> string \<Rightarrow> string \<Rightarrow> string \<Rightarrow>
    py_error + plot list" where
  "resLfit plots yv xv selMU xl yl ttl =
     bindE (take_idx yv selMU) (\<lambda>ys.
     bindE (take_idx xv selMU) (\<lambda>xs.
       Inr (plots @ [\<lparr>pl_y = ys, pl_x = xs, pl_xlabel = xl, pl_ylabel = yl, pl_title = ttl\<rparr>])))"

text \<open>Lines 57 to 65: what the branch \<open>weight is not None\<close> binds.\<close>

definition weighted_part :: "'w option \<Rightarrow> matrix \<Rightarrow> odr_output \<Rightarrow> matrix \<Rightarrow>
    py_error + (string option \<times> real list option \<times> matrix)" where
  "weighted_part weight Hrnd odrSD Xerr =
     (case weight of
        None \<Rightarrow> Inr (None, None, Xerr)
      | Some _ \<Rightarrow>
          bindE (col Hrnd 0) (\<lambda>h0.
          bindE (col Hrnd 6) (\<lambda>h6.
          bindE (div_vec (odr_eps odrSD) (map2 (\<lambda>a b. sqrt (a ^ 2 + b ^ 2)) h0 h6)) (\<lambda>LEres.
          bindE (div_mat Xerr (cols Hrnd 1 6)) (\<lambda>Xerr1.
            Inr (Some '' weighted'', Some LEres, Xerr1))))))"

definition plotSDfit :: "(matrix \<Rightarrow> real list \<Rightarrow> real list) \<Rightarrow> (nat \<Rightarrow> nat \<Rightarrow> nat list) \<Rightarrow> int \<Rightarrow> int \<Rightarrow>
    string \<Rightarrow> real list \<Rightarrow> matrix \<Rightarrow> odr_output \<Rightarrow> 'w option \<Rightarrow> py_error + plot list" where
  "plotSDfit measEq pick noMU nobj slab muTime Hrnd odrSD weight =
     (let bodr = odr_beta odrSD;
          Xdata = T (odr_xplus odrSD);
          calL = measEq Xdata bodr;
          Xerr0 = T (odr_delta odrSD)
      in bindE (weighted_part weight Hrnd odrSD Xerr0) (\<lambda>(wlab, LEres, Xerr).
         bindE (sample_range pick noMU nobj) (\<lambda>selMU.
         bindE (read_name wlab) (\<lambda>wl.
         let plot_ttl = slab @ wl @ '' residuals from ODR fit''
         in bindE (read_name LEres) (\<lambda>LE.
            bindE (resLfit [] LE calL selMU ''Radiance'' ''Fit residuals'' plot_ttl) (\<lambda>p1.
            bindE (col Xdata 3) (\<lambda>Lict.
            bindE (resLfit p1 LE Lict selMU ''ICT radiance'' ''Fit residuals'' plot_ttl) (\<lambda>p2.
            bindE (col Xdata 4) (\<lambda>To.
            bindE (resLfit p2 LE To selMU ''Orbit temperature (K)'' ''Fit residuals'' plot_ttl) (\<lambda>p3.
            bindE (read_name wlab) (\<lambda>wl2.
            let ttl = slab @ wl2 @ '' ODR evaluated true error of ''
            in bindE (col Xerr 0) (\<lambda>x0.
               bindE (resLfit p3 x0 muTime selMU ''Time'' ''Counts'' (ttl @ ''space counts'')) (\<lambda>p4.
               bindE (col Xerr 1) (\<lambda>x1.
               bindE (resLfit p4 x1 muTime selMU ''Time'' ''Counts'' (ttl @ ''ICT counts'')) (\<lambda>p5.
               bindE (col Xerr 2) (\<lambda>x2.
               bindE (resLfit p5 x2 muTime selMU ''Time'' ''Counts'' (ttl @ ''Earth counts'')) (\<lambda>p6.
               bindE (col Xerr 3) (\<lambda>x3.
               bindE (resLfit p6 x3 muTime selMU ''Time'' ''Radiance'' (ttl @ ''ICT radiance'')) (\<lambda>p7.
               bindE (col Xerr 4) (\<lambda>x4.
               resLfit p7 x4 muTime selMU ''Time'' ''Temperature'' (ttl @ ''orbit temperature'')
               ))))))))))))))))))))"

section \<open>\<open>return_valid_averages_mask\<close> of \<open>AVHRR_to_updated_spec.py\<close>\<close>

definition isnan :: "flt \<Rightarrow> bool" where
  "isnan x = (case x of NaN \<Rightarrow> True | Fin _ \<Rightarrow> False)"

text \<open>\<open>where(isnan(row))[0]\<close>: the positions of the NaNs of a row.\<close>

definition where_isnan :: "flt list \<Rightarrow> nat list" where
  "where_isnan row = [j \<leftarrow> [0..<length row]. isnan (row ! j)]"

text \<open>The loop over \<open>enumerate(zip(u11, u12, u21, u22))\<close>, \<open>i\<close> the index of the first row left.\<close>

fun mask_loop :: "nat \<Rightarrow> (flt list \<times> flt list \<times> flt list \<times> flt list) list \<Rightarrow> bool list \<Rightarrow> bool list" where
  "mask_loop i [] valid_averages = valid_averages"
| "mask_loop i ((row11, row12, row21, row22) # rest) valid_averages =
     mask_loop (Suc i) rest
       (if length (where_isnan row11) \<noteq> 0 \<or> length (where_isnan row12) \<noteq> 0 \<or>
           length (where_isnan row21) \<noteq> 0 \<or> length (where_isnan row22) \<noteq> 0
        then valid_averages[i := False] else valid_averages)"

definition return_valid_averages_mask ::
  "flt list list \<Rightarrow> flt list list \<Rightarrow> flt list list \<Rightarrow> flt list list \<Rightarrow> flt \<Rightarrow> bool list" where
  "return_valid_averages_mask u11 u12 u21 u22 label =
     (let valid_averages = replicate (length u11) True
      in if isnan label
         then mask_loop 0 (zip u11 (zip u12 (zip u21 u22))) valid_averages
         else valid_averages)"

section \<open>A small data set\<close>

text \<open>
  Three match-ups, the first two on one scanline, for the concrete instances of the
  theorems. The solver is replaced by a function that hands back fixed coefficients and
  the data it was given, and reports the status 4 for a trial; the error generator and
  the reset of the systematic uncertainties are those of the specification, the
  placeholder being 3 for the internal-target radiance and the orbit temperature.
\<close>

definition example_data :: "real pair_data" where
  "example_data =
     \<lparr>d_rsp = 1, d_Im = [[-1, 15, 3]],
      d_Hd = [[90, 1, 4, 7, 10, 280, 0], [190, 2, 5, 8, 11, 290, 0], [290, 3, 6, 9, 12, 300, 0]],
      d_Hr = [[1, 1, 1, 1, 1, 0, 1], [1, 1, 1, 1, 1, 0, 1], [1, 1, 1, 1, 1, 0, 1]],
      d_Hs = [[0, 0, 0, 0, 2, 0, 0], [0, 0, 0, 0, 2, 0, 0], [0, 0, 0, 0, 2, 0, 0]],
      d_corIdx = [10, 10, 20], d_corLen = [25],
      d_csUr = [5, 5, 6], d_cictUr = [7, 7, 8]\<rparr>"

definition example_required :: "nat \<Rightarrow> bool" where
  "example_required c = (c = 4 \<or> c = 5)"

definition example_Hs_reset :: matrix where
  "example_Hs_reset = [[0, 0, 0, 0, 2, 3, 0], [0, 0, 0, 0, 2, 3, 0], [0, 0, 0, 0, 2, 3, 0]]"

definition example_best :: odr_output where
  "example_best =
     \<lparr>odr_beta = [1, 2], odr_cov_beta = [[1, 0], [0, 1]], odr_y = [100, 200, 300],
      odr_xplus = [[1, 2, 3], [4, 5, 6], [7, 8, 9], [10, 11, 12], [280, 290, 300]],
      odr_delta = [], odr_eps = [], odr_info = 1\<rparr>"

definition example_trial_fit :: "matrix \<Rightarrow> real list \<Rightarrow> odr_output" where
  "example_trial_fit X Y =
     \<lparr>odr_beta = [1, 2], odr_cov_beta = [], odr_y = Y, odr_xplus = T X,
      odr_delta = [], odr_eps = [], odr_info = 4\<rparr>"

definition example_world :: "(nat \<Rightarrow> real, real) world" where
  "example_world =
     \<lparr>os_sep = [CHR 0x5C],
      avhrrNx = \<lparr>nocoefs = 2, novars = 5, nosensors = 2, sslab = [''m02'', ''n15''],
                 preHcoef = [''n15'' \<mapsto> [1, 2, 3]]\<rparr>,
      rHDpair = (\<lambda>folder file. Inr example_data),
      resetHs = resetHs_spec example_required 3,
      odrP = (\<lambda>Hd Hr b av fb fx hs. Inr example_best),
      odr4MC = (\<lambda>X Y Hr b av fb fx hs. Inr (example_trial_fit X Y)),
      genErr = genErr_spec,
      savetxt = (\<lambda>fn M delimiter. Inr ())\<rparr>"

text \<open>
  The log and the table of two trials on that data set with all draws equal to 1, in the
  time-dependent branch (\<open>notime = False\<close>) and in the other.
\<close>

definition example_log :: "real call list" where
  "example_log =
     [Call_odrP (d_Hd example_data) (d_Hr example_data) [1, 2] (Some [1, 0])
        (Some [1, 1, 1, 1, 0]) (Some example_Hs_reset) example_best,
      Call_genErr (d_Hr example_data) 2 3 [5, 6] [7, 8] [10, 20] [25] [2, 1]
        [[1, 5, 7, 1, 3, 3, 1], [1, 5, 7, 1, 3, 3, 1], [1, 6, 8, 1, 3, 3, 1]],
      Call_odr4MC [[6, 11, 8, 13, 283], [7, 12, 9, 14, 293], [9, 14, 10, 15, 303]]
        [102, 202, 302] (d_Hr example_data) [1, 2] (Some [1, 0]) (Some [1, 1, 1, 1, 0])
        (Some example_Hs_reset)
        (example_trial_fit [[6, 11, 8, 13, 283], [7, 12, 9, 14, 293], [9, 14, 10, 15, 303]]
           [102, 202, 302]),
      Call_genErr (d_Hr example_data) 2 3 [5, 6] [7, 8] [10, 20] [25] [2, 1]
        [[1, 5, 7, 1, 3, 3, 1], [1, 5, 7, 1, 3, 3, 1], [1, 6, 8, 1, 3, 3, 1]],
      Call_odr4MC [[6, 11, 8, 13, 283], [7, 12, 9, 14, 293], [9, 14, 10, 15, 303]]
        [102, 202, 302] (d_Hr example_data) [1, 2] (Some [1, 0]) (Some [1, 1, 1, 1, 0])
        (Some example_Hs_reset)
        (example_trial_fit [[6, 11, 8, 13, 283], [7, 12, 9, 14, 293], [9, 14, 10, 15, 303]]
           [102, 202, 302]),
      Call_savetxt (datadir @ [CHR 0x5C] @ ''Results'' @ [CHR 0x5C] @ ''n15_mcerrst_beta.txt'')
        [[1, 2, 4], [1, 2, 4]] '','']"

definition example_log_notime :: "real call list" where
  "example_log_notime =
     [Call_odrP (d_Hd example_data) [[1, 1, 1, 1, 1, 1, 1], [1, 1, 1, 1, 1, 1, 1], [1, 1, 1, 1, 1, 1, 1]]
        [1, 2] None None None example_best,
      Call_genErr [[1, 1, 1, 1, 1, 1, 1], [1, 1, 1, 1, 1, 1, 1], [1, 1, 1, 1, 1, 1, 1]]
        2 0 [5, 6] [7, 8] [10, 20] [25] [2, 1]
        [[1, 5, 7, 1, 3, 1, 1], [1, 5, 7, 1, 3, 1, 1], [1, 6, 8, 1, 3, 1, 1]],
      Call_odr4MC [[6, 11, 8, 13, 281], [7, 12, 9, 14, 291], [9, 14, 10, 15, 301]]
        [102, 202, 302] [[1, 1, 1, 1, 1, 1, 1], [1, 1, 1, 1, 1, 1, 1], [1, 1, 1, 1, 1, 1, 1]]
        [1, 2] None None None
        (example_trial_fit [[6, 11, 8, 13, 281], [7, 12, 9, 14, 291], [9, 14, 10, 15, 301]]
           [102, 202, 302]),
      Call_genErr [[1, 1, 1, 1, 1, 1, 1], [1, 1, 1, 1, 1, 1, 1], [1, 1, 1, 1, 1, 1, 1]]
        2 0 [5, 6] [7, 8] [10, 20] [25] [2, 1]
        [[1, 5, 7, 1, 3, 1, 1], [1, 5, 7, 1, 3, 1, 1], [1, 6, 8, 1, 3, 1, 1]],
      Call_odr4MC [[6, 11, 8, 13, 281], [7, 12, 9, 14, 291], [9, 14, 10, 15, 301]]
        [102, 202, 302] [[1, 1, 1, 1, 1, 1, 1], [1, 1, 1, 1, 1, 1, 1], [1, 1, 1, 1, 1, 1, 1]]
        [1, 2] None None None
        (example_trial_fit [[6, 11, 8, 13, 281], [7, 12, 9, 14, 291], [9, 14, 10, 15, 301]]
           [102, 202, 302]),
      Call_savetxt (datadir @ [CHR 0x5C] @ ''Results'' @ [CHR 0x5C] @ ''n15_notd_mcerrst_beta.txt'')
        [[1, 2, 4], [1, 2, 4]] '','']"

text \<open>
  Draws that are all 1, draws that count up from 1, a content of the memory
  \<open>numpy.empty\<close> hands out, and for \<open>plotSDfit\<close> a measurement equation and a choice of
  the sample (the first indices).
\<close>

definition ones_draws :: "nat \<Rightarrow> real" where
  "ones_draws k = 1"

definition counting_draws :: "nat \<Rightarrow> real" where
  "counting_draws k = real (k + 1)"

definition zero_memory :: "nat \<Rightarrow> nat \<Rightarrow> real" where
  "zero_memory i j = 0"

definition example_measEq :: "matrix \<Rightarrow> real list \<Rightarrow> real list" where
  "example_measEq X b = replicate (length X) 0"

definition example_pick :: "nat \<Rightarrow> nat \<Rightarrow> nat list" where
  "example_pick n k = [0..<k]"

text \<open>
  Four match-ups of two scanlines, once ordered by scanline and once not, with the
  scanline uncertainties of their records, and their random uncertainties.
\<close>

definition ordered_corIdx :: "real list" where
  "ordered_corIdx = [10, 10, 20, 20]"

definition ordered_csUr :: "real list" where
  "ordered_csUr = [5, 5, 6, 6]"

definition ordered_cictUr :: "real list" where
  "ordered_cictUr = [7, 7, 8, 8]"

definition mixed_corIdx :: "real list" where
  "mixed_corIdx = [10, 20, 10, 20]"

definition mixed_csUr :: "real list" where
  "mixed_csUr = [5, 6, 5, 6]"

definition mixed_cictUr :: "real list" where
  "mixed_cictUr = [7, 8, 7, 8]"

definition four_Hr :: matrix where
  "four_Hr = [[1, 1, 1, 1, 1, 0, 1], [1, 1, 1, 1, 1, 0, 1], [1, 1, 1, 1, 1, 0, 1],
              [1, 1, 1, 1, 1, 0, 1]]"

section \<open>The mask of valid match-ups\<close>

lemma isnan_iff: "isnan x = (x = NaN)"
  by (simp add: isnan_def split: flt.splits)

lemma where_isnan_empty: "(where_isnan row = []) = (NaN \<notin> set row)"
proof -
  have "(where_isnan row \<noteq> []) = (\<exists>j<length row. row ! j = NaN)"
    by (auto simp: where_isnan_def filter_empty_conv isnan_iff)
  also have "\<dots> = (NaN \<in> set row)"
    by (auto simp: in_set_conv_nth)
  finally show ?thesis by blast
qed

lemma mask_loop_length: "length (mask_loop i zs va) = length va"
  by (induction i zs va rule: mask_loop.induct) auto

text \<open>
  What the loop leaves at position \<open>j\<close>: False where the loop passed and one of the four
  rows has a NaN, the old entry elsewhere.
\<close>

lemma mask_loop_nth:
  "j < length va \<Longrightarrow>
   mask_loop i zs va ! j =
     (if i \<le> j \<and> j < i + length zs \<and>
         (case zs ! (j - i) of (a, b, c, d) \<Rightarrow>
            NaN \<in> set a \<or> NaN \<in> set b \<or> NaN \<in> set c \<or> NaN \<in> set d)
      then False else va ! j)"
proof (induction i zs va rule: mask_loop.induct)
  case (1 i va)
  then show ?case by auto
next
  case (2 i row11 row12 row21 row22 rest va)
  show ?case
  proof (cases "j = i")
    case True
    then show ?thesis using 2 by (simp add: where_isnan_empty)
  next
    case False
    then show ?thesis using 2
      by (cases "i < j") (auto simp: where_isnan_empty nth_Cons' Suc_diff_Suc)
  qed
qed

text \<open>
  Claim C10. \<open>return_valid_averages_mask\<close> returns a mask with one entry per row of
  \<open>u11\<close>. For a label that is not NaN every entry is True, whatever the arrays hold. For
  the label NaN (the default), a match-up that has its four rows is marked invalid
  exactly when one of the four rows contains a NaN.
\<close>

theorem return_valid_averages_mask_spec:
  "length (return_valid_averages_mask u11 u12 u21 u22 label) = length u11
   \<and> (label \<noteq> NaN \<longrightarrow>
        return_valid_averages_mask u11 u12 u21 u22 label = replicate (length u11) True)
   \<and> (label = NaN \<longrightarrow>
        (\<forall>i. i < length u11 \<and> i < length u12 \<and> i < length u21 \<and> i < length u22 \<longrightarrow>
           (\<not> return_valid_averages_mask u11 u12 u21 u22 label ! i) =
           (NaN \<in> set (u11 ! i) \<or> NaN \<in> set (u12 ! i) \<or> NaN \<in> set (u21 ! i) \<or>
            NaN \<in> set (u22 ! i))))"
proof (intro conjI impI allI)
  show "length (return_valid_averages_mask u11 u12 u21 u22 label) = length u11"
    by (simp add: return_valid_averages_mask_def mask_loop_length Let_def)
next
  assume "label \<noteq> NaN"
  then show "return_valid_averages_mask u11 u12 u21 u22 label = replicate (length u11) True"
    by (simp add: return_valid_averages_mask_def isnan_iff Let_def)
next
  fix i
  assume nan: "label = NaN"
    and i: "i < length u11 \<and> i < length u12 \<and> i < length u21 \<and> i < length u22"
  let ?zs = "zip u11 (zip u12 (zip u21 u22))"
  have len: "i < length ?zs" using i by simp
  have zi: "?zs ! i = (u11 ! i, u12 ! i, u21 ! i, u22 ! i)" using i by simp
  have "return_valid_averages_mask u11 u12 u21 u22 label ! i
        = mask_loop 0 ?zs (replicate (length u11) True) ! i"
    using nan by (simp add: return_valid_averages_mask_def isnan_iff Let_def)
  also have "\<dots> = (if NaN \<in> set (u11 ! i) \<or> NaN \<in> set (u12 ! i) \<or> NaN \<in> set (u21 ! i) \<or>
                        NaN \<in> set (u22 ! i) then False else True)"
    using i len by (subst mask_loop_nth) (simp_all add: zi del: length_zip)
  finally show "(\<not> return_valid_averages_mask u11 u12 u21 u22 label ! i) =
           (NaN \<in> set (u11 ! i) \<or> NaN \<in> set (u12 ! i) \<or> NaN \<in> set (u21 ! i) \<or>
            NaN \<in> set (u22 ! i))"
    by simp
qed

text \<open>
  Two match-ups, the second with a NaN in its row of \<open>u11\<close>: with the label NaN the mask
  is True, False; with the label -999 it is True, True.
\<close>

theorem return_valid_averages_mask_spec_witness:
  "length (return_valid_averages_mask [[Fin 1, Fin 2], [Fin 3, NaN]] [[Fin 0], [Fin 0]]
             [[Fin 5], [Fin 6]] [[Fin 7], [Fin 8]] NaN) = 2
   \<and> return_valid_averages_mask [[Fin 1, Fin 2], [Fin 3, NaN]] [[Fin 0], [Fin 0]]
        [[Fin 5], [Fin 6]] [[Fin 7], [Fin 8]] (Fin (-999)) = [True, True]
   \<and> \<not> return_valid_averages_mask [[Fin 1, Fin 2], [Fin 3, NaN]] [[Fin 0], [Fin 0]]
        [[Fin 5], [Fin 6]] [[Fin 7], [Fin 8]] NaN ! 1
   \<and> return_valid_averages_mask [[Fin 1, Fin 2], [Fin 3, NaN]] [[Fin 0], [Fin 0]]
        [[Fin 5], [Fin 6]] [[Fin 7], [Fin 8]] NaN ! 0"
  using return_valid_averages_mask_spec [of "[[Fin 1, Fin 2], [Fin 3, NaN]]" "[[Fin 0], [Fin 0]]"
      "[[Fin 5], [Fin 6]]" "[[Fin 7], [Fin 8]]" NaN]
    return_valid_averages_mask_spec [of "[[Fin 1, Fin 2], [Fin 3, NaN]]" "[[Fin 0], [Fin 0]]"
      "[[Fin 5], [Fin 6]]" "[[Fin 7], [Fin 8]]" "Fin (-999)"]
  by (simp add: nth_Cons' numeral_2_eq_2 All_less_Suc)

section \<open>\<open>plotSDfit\<close> without a weight\<close>

text \<open>
  Claim C9, as amended. With \<open>weight=None\<close> the function never plots: it always raises.
  The exception is the NameError of the unbound \<open>wlab\<close> when \<open>random.sample\<close> accepts
  its arguments (\<open>0 \<le> nobj \<le> len(range(noMU))\<close>); otherwise \<open>random.sample\<close>, one line
  before the title is built, raises ValueError first.
\<close>

theorem plotSDfit_weight_None:
  "plotSDfit measEq pick noMU nobj slab muTime Hrnd odrSD None =
     Inl (if 0 \<le> nobj \<and> nobj \<le> max 0 noMU then NameError else ValueError)"
  by (simp add: plotSDfit_def weighted_part_def bindE_def sample_range_def read_name_def
      Let_def max_def)

text \<open>
  A sample of five out of three match-ups: the call with \<open>weight=None\<close> raises
  ValueError, not NameError.
\<close>

theorem plotSDfit_NameError_counterexample:
  "plotSDfit example_measEq example_pick 3 5 ''n15'' [] [] example_best (None :: int option)
   = Inl ValueError"
  by (simp add: plotSDfit_def weighted_part_def bindE_def sample_range_def read_name_def Let_def)

text \<open>A sample of three out of five match-ups: the call with \<open>weight=None\<close> raises NameError.\<close>

theorem plotSDfit_weight_None_witness:
  "plotSDfit example_measEq example_pick 5 3 ''n15'' [] [] example_best (None :: int option)
   = Inl NameError"
  using plotSDfit_weight_None [of example_measEq example_pick 5 3 "''n15''" "[]" "[]" example_best]
  by simp

section \<open>Arrays\<close>

lemma bindE_Inr: "(bindE m f = Inr y) = (\<exists>x. m = Inr x \<and> f x = Inr y)"
  by (cases m) (simp_all add: bindE_def)

lemma bindE_simps [simp]: "bindE (Inl e) f = Inl e" "bindE (Inr v) f = f v"
  by (simp_all add: bindE_def)

lemma col_Inr:
  assumes "col M k = Inr v"
  shows "length v = length M" and "\<And>i. i < length M \<Longrightarrow> k < length (M ! i) \<and> v ! i = M ! i ! k"
  using assms by (auto simp: col_def list_all_length split: if_splits)

text \<open>Operands of one shape: nothing is stretched.\<close>

lemma bc_vec_same: "length a = length b \<Longrightarrow> bc_vec f a b = Inr (map2 f a b)"
  by (simp add: bc_vec_def bc_len_def stretch_def)

lemma bc_mat_same:
  assumes len: "length A = length B"
    and A: "list_all (\<lambda>row. length row = c) A" and B: "list_all (\<lambda>row. length row = c) B"
  shows "bc_mat f A B = Inr (map2 (map2 f) A B)"
proof (cases "length A = 0")
  case True
  then show ?thesis using len by (simp add: bc_mat_def bc_len_def)
next
  case False
  then have a0: "length (A ! 0) = c" and b0: "length (B ! 0) = c"
    using A B len by (simp_all add: list_all_length)
  have "map2 (\<lambda>a b. map2 f (stretch c a) (stretch c b)) A B = map2 (map2 f) A B"
  proof (rule nth_equalityI)
    show "length (map2 (\<lambda>a b. map2 f (stretch c a) (stretch c b)) A B) = length (map2 (map2 f) A B)"
      by simp
  next
    fix i assume "i < length (map2 (\<lambda>a b. map2 f (stretch c a) (stretch c b)) A B)"
    then have i: "i < length A" "i < length B" by simp_all
    then have "length (A ! i) = c" "length (B ! i) = c"
      using A B by (simp_all add: list_all_length)
    then show "map2 (\<lambda>a b. map2 f (stretch c a) (stretch c b)) A B ! i = map2 (map2 f) A B ! i"
      using i by (simp add: stretch_def)
  qed
  then show ?thesis
    using False len a0 b0 by (simp add: bc_mat_def bc_len_def stretch_def)
qed

lemma T_shape:
  assumes "X \<noteq> []" and "list_all (\<lambda>row. length row = n) X"
  shows "length (T X) = n" and "list_all (\<lambda>row. length row = length X) (T X)"
    and "\<And>rec c. rec < n \<Longrightarrow> c < length X \<Longrightarrow> T X ! rec ! c = X ! c ! rec"
proof -
  from assms obtain r0 rest where X: "X = r0 # rest" and r0: "length r0 = n"
    by (cases X) auto
  have TX: "T X = map (\<lambda>j. map (\<lambda>row. row ! j) X) [0..<n]"
    by (simp add: T_def X r0)
  show "length (T X) = n" by (simp add: TX)
  show "list_all (\<lambda>row. length row = length X) (T X)" by (simp add: TX list_all_length)
  show "\<And>rec c. rec < n \<Longrightarrow> c < length X \<Longrightarrow> T X ! rec ! c = X ! c ! rec"
    by (simp add: TX)
qed

section \<open>The data of a trial\<close>

text \<open>
  Lines 120 and 121 on data of the shape of the data model: five variables and a
  response for each record, one row of errors per record.
\<close>

lemma perturb_shaped:
  assumes pe: "perturb X Y errStr = Inr (Xdt, Ydt)"
    and X5: "length X = 5" and XN: "list_all (\<lambda>row. length row = length Y) X"
    and EN: "length errStr = length Y"
  shows "length Xdt = length Y" and "list_all (\<lambda>row. length row = 5) Xdt"
    and "\<And>rec c. rec < length Y \<Longrightarrow> c < 5 \<Longrightarrow>
           Xdt ! rec ! c = X ! c ! rec + errStr ! rec ! (c + 1)"
    and "length Ydt = length Y"
    and "\<And>rec. rec < length Y \<Longrightarrow> Ydt ! rec = Y ! rec + errStr ! rec ! 0 + errStr ! rec ! 6"
proof -
  from pe obtain err0 Y0 err6 where
    am: "add_mat (T X) (cols errStr 1 6) = Inr Xdt" and
    c0: "col errStr 0 = Inr err0" and a0: "add_vec Y err0 = Inr Y0" and
    c6: "col errStr 6 = Inr err6" and a6: "add_vec Y0 err6 = Inr Ydt"
    by (auto simp: perturb_def bindE_Inr)
  note C0 = col_Inr[OF c0] and C6 = col_Inr[OF c6]
  have Y0: "Y0 = map2 (+) Y err0"
    using a0 C0(1) EN by (simp add: add_vec_def bc_vec_same)
  have Yd: "Ydt = map2 (+) Y0 err6"
    using a6 C6(1) C0(1) EN by (simp add: add_vec_def bc_vec_same Y0)
  show "length Ydt = length Y" using C0(1) C6(1) EN by (simp add: Yd Y0)
  show "Ydt ! rec = Y ! rec + errStr ! rec ! 0 + errStr ! rec ! 6" if "rec < length Y" for rec
    using that C0 C6 EN by (simp add: Yd Y0)
  have wide: "\<And>i. i < length errStr \<Longrightarrow> 6 < length (errStr ! i)"
    using C6(2) by blast
  have Xne: "X \<noteq> []" using X5 by auto
  note TS = T_shape[OF Xne XN]
  have cl: "length (cols errStr 1 6) = length (T X)" using TS(1) EN by (simp add: cols_def)
  have c5: "list_all (\<lambda>row. length row = 5) (cols errStr 1 6)"
    unfolding cols_def list_all_length
  proof (intro allI impI)
    fix i assume "i < length (map (\<lambda>row. take (6 - 1) (drop 1 row)) errStr)"
    then have i: "i < length errStr" by simp
    from wide[OF i] show "length (map (\<lambda>row. take (6 - 1) (drop 1 row)) errStr ! i) = 5"
      using i by simp
  qed
  have t5: "list_all (\<lambda>row. length row = 5) (T X)" using TS(2) X5 by simp
  have Xd: "Xdt = map2 (map2 (+)) (T X) (cols errStr 1 6)"
    using am bc_mat_same[OF cl[symmetric] t5 c5, of "(+)"] by (simp add: add_mat_def)
  show "length Xdt = length Y" using cl TS(1) by (simp add: Xd)
  show "list_all (\<lambda>row. length row = 5) Xdt"
    using t5 c5 cl by (simp add: Xd list_all_length)
  show "Xdt ! rec ! c = X ! c ! rec + errStr ! rec ! (c + 1)" if "rec < length Y" "c < 5" for rec c
  proof -
    have r: "rec < length (T X)" "rec < length errStr" using that TS(1) EN by simp_all
    have l1: "length (T X ! rec) = 5" using t5 r by (simp add: list_all_length)
    have l2: "length (cols errStr 1 6 ! rec) = 5" using c5 r cl by (simp add: list_all_length)
    have "cols errStr 1 6 ! rec ! c = errStr ! rec ! (c + 1)"
      using r that(2) wide[OF r(2)] by (simp add: cols_def)
    moreover have "T X ! rec ! c = X ! c ! rec" using TS(3) that X5 by simp
    ultimately show ?thesis using r cl l1 l2 that(2) by (simp add: Xd)
  qed
qed

section \<open>The table of the trials\<close>

lemma table_row_length: "length (table_row p mcodr) = p + 1"
  by (simp add: table_row_def)

text \<open>On a table with \<open>p + 1\<close> columns the two assignments replace the whole row.\<close>

lemma store_rows:
  assumes rows: "list_all (\<lambda>row. length row = p + 1) mcb"
  shows "store mcb i p mcodr =
           (if \<not> i < length mcb then Inl IndexError
            else if length (odr_beta mcodr) = p \<or> length (odr_beta mcodr) = 1
                 then Inr (mcb[i := table_row p mcodr])
                 else Inl ValueError)"
proof (cases "i < length mcb")
  case False
  then show ?thesis by (simp add: store_def set_row_slice_def)
next
  case i: True
  have li: "length (mcb ! i) = p + 1" using rows i by (simp add: list_all_length)
  have q: "min p (length (mcb ! i)) = p" using li by simp
  show ?thesis
  proof (cases "length (odr_beta mcodr) = p \<or> length (odr_beta mcodr) = 1")
    case False
    then show ?thesis using i q by (simp add: store_def set_row_slice_def Let_def)
  next
    case True
    define b where "b = (if length (odr_beta mcodr) = p then odr_beta mcodr
                         else replicate p (odr_beta mcodr ! 0))"
    have lb: "length b = p" by (simp add: b_def)
    have m1: "set_row_slice mcb i p (odr_beta mcodr) = Inr (mcb[i := b @ drop p (mcb ! i)])"
      using True i q by (auto simp: set_row_slice_def Let_def b_def)
    have "length (drop p (mcb ! i)) = 1" using li by simp
    then obtain x where dx: "drop p (mcb ! i) = [x]"
      by (cases "drop p (mcb ! i)") auto
    have "store mcb i p mcodr
          = Inr ((mcb[i := b @ [x]])[i := (b @ [x])[p := real_of_int (odr_info mcodr)]])"
      using i lb by (simp add: store_def m1 dx set_cell_def)
    also have "(b @ [x])[p := real_of_int (odr_info mcodr)] = b @ [real_of_int (odr_info mcodr)]"
      using lb by (simp add: list_update_append)
    finally show ?thesis using True i by (simp add: table_row_def b_def)
  qed
qed

section \<open>The trial loop\<close>

lemma mc_trial_Inr:
  assumes "mc_trial w e i s = Inr s'"
    and rows: "list_all (\<lambda>row. length row = e_p e + 1) (s_mcb s)"
  obtains t where "trial_ok w e t"
    and "s_log s' = s_log s @ trial_entries e t"
    and "s_mcodr s' = Some (trial_out t)"
    and "i < length (s_mcb s)"
    and "s_mcb s' = (s_mcb s)[i := table_row (e_p e) (trial_out t)]"
    and "genErr w (s_rng s) (e_Hr e) (e_sLict e) (e_sTo e) (e_rCSar e) (e_rCICTar e) (e_slt e)
           (e_corLen e) (e_mcnt e) = Inr (trial_err t, s_rng s')"
proof -
  from assms(1) obtain errStr rng' Xdt Ydt mcodr mcb2 where
    ge: "genErr w (s_rng s) (e_Hr e) (e_sLict e) (e_sTo e) (e_rCSar e) (e_rCICTar e) (e_slt e)
           (e_corLen e) (e_mcnt e) = Inr (errStr, rng')" and
    pe: "perturb (e_X e) (e_Y e) errStr = Inr (Xdt, Ydt)" and
    f: "trial_fit w e Xdt Ydt = Inr mcodr" and
    st: "store (s_mcb s) i (e_p e) mcodr = Inr mcb2" and
    s': "s' = \<lparr>s_rng = rng', s_mcb = mcb2,
            s_log = s_log s @ [log_genErr e errStr, log_odr4MC e Xdt Ydt mcodr],
            s_mcodr = Some mcodr\<rparr>"
    by (auto simp: mc_trial_def bindE_Inr)
  from st have S: "i < length (s_mcb s)"
      "length (odr_beta mcodr) = e_p e \<or> length (odr_beta mcodr) = Suc 0"
      "mcb2 = (s_mcb s)[i := table_row (e_p e) mcodr]"
    unfolding store_rows[OF rows] by (auto split: if_splits)
  show ?thesis
    by (rule that[of "(errStr, Xdt, Ydt, mcodr)"])
       (simp_all add: trial_ok_def trial_entries_def trial_out_def trial_err_def trial_X_def
          trial_Y_def s' S f pe ge)
qed

lemma mc_loop_Inr:
  assumes "mc_loop w e js s = Inr s'"
    and "distinct js"
    and "list_all (\<lambda>row. length row = e_p e + 1) (s_mcb s)"
  shows "\<exists>ts. length ts = length js
           \<and> s_log s' = s_log s @ concat (map (trial_entries e) ts)
           \<and> list_all (trial_ok w e) ts
           \<and> length (s_mcb s') = length (s_mcb s)
           \<and> list_all (\<lambda>row. length row = e_p e + 1) (s_mcb s')
           \<and> (\<forall>k<length js. js ! k < length (s_mcb s)
                  \<and> s_mcb s' ! (js ! k) = table_row (e_p e) (trial_out (ts ! k)))
           \<and> (\<forall>j. j \<notin> set js \<longrightarrow> s_mcb s' ! j = s_mcb s ! j)
           \<and> s_mcodr s' = (if ts = [] then s_mcodr s else Some (trial_out (last ts)))"
  using assms
proof (induction js arbitrary: s)
  case Nil
  then show ?case by simp
next
  case (Cons i rest)
  from Cons.prems(1) obtain s1 where
    t1: "mc_trial w e i s = Inr s1" and l1: "mc_loop w e rest s1 = Inr s'"
    by (auto simp: bindE_Inr)
  from mc_trial_Inr[OF t1 Cons.prems(3)] obtain t where
    ok: "trial_ok w e t" and lg: "s_log s1 = s_log s @ trial_entries e t"
    and mo: "s_mcodr s1 = Some (trial_out t)" and i: "i < length (s_mcb s)"
    and mb: "s_mcb s1 = (s_mcb s)[i := table_row (e_p e) (trial_out t)]"
    by blast
  have rows1: "list_all (\<lambda>row. length row = e_p e + 1) (s_mcb s1)"
    unfolding mb list_all_length
  proof (intro allI impI)
    fix n assume "n < length ((s_mcb s)[i := table_row (e_p e) (trial_out t)])"
    then have n: "n < length (s_mcb s)" by simp
    then have "length (s_mcb s ! n) = e_p e + 1"
      using Cons.prems(3) by (simp add: list_all_length)
    then show "length ((s_mcb s)[i := table_row (e_p e) (trial_out t)] ! n) = e_p e + 1"
      using n by (cases "n = i") (simp_all add: table_row_length)
  qed
  from Cons.prems(2) have d: "distinct rest" and ni: "i \<notin> set rest" by simp_all
  from Cons.IH[OF l1 d rows1] obtain ts where
    a: "length ts = length rest"
    and b: "s_log s' = s_log s1 @ concat (map (trial_entries e) ts)"
    and c: "list_all (trial_ok w e) ts"
    and d1: "length (s_mcb s') = length (s_mcb s1)"
    and e1: "list_all (\<lambda>row. length row = e_p e + 1) (s_mcb s')"
    and f: "\<forall>k<length rest. rest ! k < length (s_mcb s1)
                  \<and> s_mcb s' ! (rest ! k) = table_row (e_p e) (trial_out (ts ! k))"
    and g: "\<forall>j. j \<notin> set rest \<longrightarrow> s_mcb s' ! j = s_mcb s1 ! j"
    and h: "s_mcodr s' = (if ts = [] then s_mcodr s1 else Some (trial_out (last ts)))"
    by blast
  have k0: "s_mcb s' ! i = table_row (e_p e) (trial_out t)"
    using g ni i by (simp add: mb)
  have "length (t # ts) = length (i # rest)" using a by simp
  moreover have "s_log s' = s_log s @ concat (map (trial_entries e) (t # ts))"
    using b lg by simp
  moreover have "list_all (trial_ok w e) (t # ts)" using c ok by simp
  moreover have "length (s_mcb s') = length (s_mcb s)" using d1 mb by simp
  moreover have "\<forall>k<length (i # rest). (i # rest) ! k < length (s_mcb s)
                  \<and> s_mcb s' ! ((i # rest) ! k) = table_row (e_p e) (trial_out ((t # ts) ! k))"
  proof (intro allI impI)
    fix k assume "k < length (i # rest)"
    then show "(i # rest) ! k < length (s_mcb s)
                  \<and> s_mcb s' ! ((i # rest) ! k) = table_row (e_p e) (trial_out ((t # ts) ! k))"
      using f k0 i mb by (cases k) auto
  qed
  moreover have "\<forall>j. j \<notin> set (i # rest) \<longrightarrow> s_mcb s' ! j = s_mcb s ! j"
    using g mb by auto
  moreover have "s_mcodr s' = (if t # ts = [] then s_mcodr s else Some (trial_out (last (t # ts))))"
    using h mo by simp
  ultimately show ?case using e1 by blast
qed


section \<open>The script as a whole\<close>

lemma best_fit_Inr:
  assumes "best_fit w nt ncfile s2 beta0 p m = Inr (d, fixb, fixx, podr, c0, fn)"
  shows "c0 = Call_odrP (d_Hd d) (d_Hr d) beta0 fixb fixx (if nt then None else Some (d_Hs d)) podr"
    and "odrP w (d_Hd d) (d_Hr d) beta0 (avhrrNx w) fixb fixx (if nt then None else Some (d_Hs d))
         = Inr podr"
    and "fn = s2 @ (if nt then ''_notd_mcerrst_beta.txt'' else ''_mcerrst_beta.txt'')"
    and "nt \<Longrightarrow> \<exists>d0. rHDpair w (pjoin (os_sep w) datadir ''newSim_notime'') ncfile = Inr d0
            \<and> set_col (d_Hr d0) 5 1 = Inr (d_Hr d) \<and> d_Hs d = d_Hs d0
            \<and> fixb = None \<and> fixx = None"
    and "\<not> nt \<Longrightarrow> \<exists>d0 fb fx. rHDpair w datadir ncfile = Inr d0
            \<and> resetHs w (d_Hs d0) (d_rsp d0) = Inr (d_Hs d) \<and> d_Hr d = d_Hr d0
            \<and> ones_last0 p = Inr fb \<and> ones_last0 m = Inr fx \<and> fixb = Some fb \<and> fixx = Some fx"
proof -
  show "c0 = Call_odrP (d_Hd d) (d_Hr d) beta0 fixb fixx (if nt then None else Some (d_Hs d)) podr"
    using assms by (auto simp: best_fit_def bindE_Inr split: if_splits)
  show "odrP w (d_Hd d) (d_Hr d) beta0 (avhrrNx w) fixb fixx (if nt then None else Some (d_Hs d))
         = Inr podr"
    using assms by (auto simp: best_fit_def bindE_Inr split: if_splits)
  show "fn = s2 @ (if nt then ''_notd_mcerrst_beta.txt'' else ''_mcerrst_beta.txt'')"
    using assms by (auto simp: best_fit_def bindE_Inr split: if_splits)
  show "nt \<Longrightarrow> \<exists>d0. rHDpair w (pjoin (os_sep w) datadir ''newSim_notime'') ncfile = Inr d0
            \<and> set_col (d_Hr d0) 5 1 = Inr (d_Hr d) \<and> d_Hs d = d_Hs d0
            \<and> fixb = None \<and> fixx = None"
    using assms by (auto simp: best_fit_def bindE_Inr split: if_splits)
  show "\<not> nt \<Longrightarrow> \<exists>d0 fb fx. rHDpair w datadir ncfile = Inr d0
            \<and> resetHs w (d_Hs d0) (d_rsp d0) = Inr (d_Hs d) \<and> d_Hr d = d_Hr d0
            \<and> ones_last0 p = Inr fb \<and> ones_last0 m = Inr fx \<and> fixb = Some fb \<and> fixx = Some fx"
    using assms by (auto simp: best_fit_def bindE_Inr split: if_splits)
qed

lemma ncfile_simps: "filelist ! 4 = ''m02_n15.nc''" "take 3 (drop 4 (filelist ! 4)) = ''n15''"
  by (simp_all add: filelist_def)

lemma prepare_Inr:
  assumes "prepare w nt = Inr (e, c0, fn)"
  obtains coefs d fixb fixx podr sLict sTo slt midx mcnt rCSar rCICTar where
    "preHcoef (avhrrNx w) ''n15'' = Some coefs"
    "best_fit w nt ''m02_n15.nc'' ''n15'' (take (nocoefs (avhrrNx w)) coefs)
       (nocoefs (avhrrNx w)) (novars (avhrrNx w)) = Inr (d, fixb, fixx, podr, c0, fn)"
    "cell (d_Hs d) 0 4 = Inr sLict" "cell (d_Hs d) 0 5 = Inr sTo"
    "unique (d_corIdx d) = (slt, midx, mcnt)"
    "take_idx (d_csUr d) midx = Inr rCSar" "take_idx (d_cictUr d) midx = Inr rCICTar"
    "e = make_env nt (min (length coefs) (nocoefs (avhrrNx w))) d fixb fixx podr sLict sTo
           rCSar rCICTar slt mcnt"
proof -
  from assms obtain coefs where co: "preHcoef (avhrrNx w) ''n15'' = Some coefs"
    by (auto simp: prepare_def Let_def ncfile_simps split: option.splits)
  from assms co obtain d fixb fixx podr sLict sTo rCSar rCICTar
    where bf: "best_fit w nt ''m02_n15.nc'' ''n15'' (take (nocoefs (avhrrNx w)) coefs)
        (nocoefs (avhrrNx w)) (novars (avhrrNx w)) = Inr (d, fixb, fixx, podr, c0, fn)"
    and c4: "cell (d_Hs d) 0 4 = Inr sLict" and c5: "cell (d_Hs d) 0 5 = Inr sTo"
    and t1: "take_idx (d_csUr d) (fst (snd (unique (d_corIdx d)))) = Inr rCSar"
    and t2: "take_idx (d_cictUr d) (fst (snd (unique (d_corIdx d)))) = Inr rCICTar"
    and e: "e = make_env nt (min (length coefs) (nocoefs (avhrrNx w))) d fixb fixx podr sLict sTo
         rCSar rCICTar (fst (unique (d_corIdx d))) (snd (snd (unique (d_corIdx d))))"
    unfolding prepare_def Let_def ncfile_simps
    by (auto simp: bindE_Inr case_prod_beta)
  have "unique (d_corIdx d) = (fst (unique (d_corIdx d)), fst (snd (unique (d_corIdx d))),
      snd (snd (unique (d_corIdx d))))" by simp
  then show ?thesis
    using co bf c4 c5 t1 t2 e
      that[of coefs d fixb fixx podr sLict sTo "fst (unique (d_corIdx d))"
        "fst (snd (unique (d_corIdx d)))" "snd (snd (unique (d_corIdx d)))" rCSar rCICTar]
    by simp
qed

lemma empty_array_shape:
  "length (empty_array g n k) = n" "list_all (\<lambda>row. length row = k) (empty_array g n k)"
  by (simp_all add: empty_array_def list_all_length)

lemma log_entry_kinds [simp]:
  "is_Call_genErr (log_genErr e errStr)" "\<not> is_Call_odr4MC (log_genErr e errStr)"
  "\<not> is_Call_savetxt (log_genErr e errStr)" "\<not> is_Call_odrP (log_genErr e errStr)"
  "is_Call_odr4MC (log_odr4MC e Xdt Ydt mcodr)" "\<not> is_Call_genErr (log_odr4MC e Xdt Ydt mcodr)"
  "\<not> is_Call_savetxt (log_odr4MC e Xdt Ydt mcodr)" "\<not> is_Call_odrP (log_odr4MC e Xdt Ydt mcodr)"
  by (simp_all add: log_genErr_def log_odr4MC_def)

lemma views_of_trials:
  "gens (concat (map (trial_entries e) ts)) = map (\<lambda>t. log_genErr e (trial_err t)) ts"
  "fits (concat (map (trial_entries e) ts))
     = map (\<lambda>t. log_odr4MC e (trial_X t) (trial_Y t) (trial_out t)) ts"
  "saves (concat (map (trial_entries e) ts)) = []"
  "filter is_Call_odrP (concat (map (trial_entries e) ts)) = []"
  by (induction ts) (auto simp: gens_def fits_def saves_def trial_entries_def)

text \<open>
  A run that ends without an exception: the log is the best-estimate fit, two entries
  per trial and the write of the table; the table is made of the rows of the trials.
\<close>

lemma script_run:
  assumes "script w nt n rng0 g st et = Inr r"
  obtains coefs d fixb fixx podr fn sLict sTo slt midx mcnt rCSar rCICTar e ts where
    "preHcoef (avhrrNx w) ''n15'' = Some coefs"
    "best_fit w nt ''m02_n15.nc'' ''n15'' (take (nocoefs (avhrrNx w)) coefs)
       (nocoefs (avhrrNx w)) (novars (avhrrNx w))
     = Inr (d, fixb, fixx, podr,
            Call_odrP (d_Hd d) (d_Hr d) (take (nocoefs (avhrrNx w)) coefs) fixb fixx
              (if nt then None else Some (d_Hs d)) podr, fn)"
    "cell (d_Hs d) 0 4 = Inr sLict" "cell (d_Hs d) 0 5 = Inr sTo"
    "unique (d_corIdx d) = (slt, midx, mcnt)"
    "take_idx (d_csUr d) midx = Inr rCSar" "take_idx (d_cictUr d) midx = Inr rCICTar"
    "e = make_env nt (min (length coefs) (nocoefs (avhrrNx w))) d fixb fixx podr sLict sTo
           rCSar rCICTar slt mcnt"
    "r_log r = Call_odrP (d_Hd d) (d_Hr d) (take (nocoefs (avhrrNx w)) coefs) fixb fixx
                 (if nt then None else Some (d_Hs d)) podr
               # concat (map (trial_entries e) ts)
               @ [Call_savetxt (pjoin (os_sep w) (pjoin (os_sep w) datadir ''Results'') fn)
                    (r_mcb r) '','']"
    "length ts = n" "list_all (trial_ok w e) ts"
    "r_mcb r = map (\<lambda>t. table_row (e_p e) (trial_out t)) ts"
    "r_exect r = et - st" "0 < n"
    "savetxt w (pjoin (os_sep w) (pjoin (os_sep w) datadir ''Results'') fn) (r_mcb r) '','' = Inr ()"
proof -
  from assms obtain e c0 fn s where
    pr: "prepare w nt = Inr (e, c0, fn)" and
    ml: "mc_loop w e [0..<n] (init_state rng0 g n (e_p e) c0) = Inr s" and
    fi: "finish w fn s st et = Inr r"
    by (auto simp: script_def bindE_Inr)
  from prepare_Inr[OF pr] obtain coefs d fixb fixx podr sLict sTo slt midx mcnt rCSar rCICTar where
    co: "preHcoef (avhrrNx w) ''n15'' = Some coefs" and
    bf: "best_fit w nt ''m02_n15.nc'' ''n15'' (take (nocoefs (avhrrNx w)) coefs)
       (nocoefs (avhrrNx w)) (novars (avhrrNx w)) = Inr (d, fixb, fixx, podr, c0, fn)" and
    c4: "cell (d_Hs d) 0 4 = Inr sLict" and c5: "cell (d_Hs d) 0 5 = Inr sTo" and
    un: "unique (d_corIdx d) = (slt, midx, mcnt)" and
    t1: "take_idx (d_csUr d) midx = Inr rCSar" and t2: "take_idx (d_cictUr d) midx = Inr rCICTar" and
    e: "e = make_env nt (min (length coefs) (nocoefs (avhrrNx w))) d fixb fixx podr sLict sTo
           rCSar rCICTar slt mcnt"
    by blast
  from fi obtain mcodr where
    mo: "s_mcodr s = Some mcodr" and
    sv: "savetxt w (pjoin (os_sep w) (pjoin (os_sep w) datadir ''Results'') fn) (s_mcb s) '',''
         = Inr ()" and
    lg: "r_log r = s_log s @ [Call_savetxt (pjoin (os_sep w) (pjoin (os_sep w) datadir ''Results'') fn)
        (s_mcb s) '','']" and
    mb: "r_mcb r = s_mcb s" and ex: "r_exect r = et - st"
    by (auto simp: finish_def bindE_Inr read_name_def Let_def split: option.splits)
  let ?s0 = "init_state rng0 g n (e_p e) c0"
  have s0: "s_mcb ?s0 = empty_array g n (e_p e + 1)" "s_log ?s0 = [c0]" "s_mcodr ?s0 = None"
    by (simp_all add: init_state_def)
  have rows: "list_all (\<lambda>row. length row = e_p e + 1) (s_mcb ?s0)"
    by (simp add: s0 empty_array_shape)
  from mc_loop_Inr[OF ml distinct_upt rows] obtain ts where
    a0: "length ts = length [0..<n]"
    and b0: "s_log s = s_log ?s0 @ concat (map (trial_entries e) ts)"
    and c: "list_all (trial_ok w e) ts"
    and d0: "length (s_mcb s) = length (s_mcb ?s0)"
    and f0: "\<forall>k<length [0..<n]. [0..<n] ! k < length (s_mcb ?s0)
                  \<and> s_mcb s ! ([0..<n] ! k) = table_row (e_p e) (trial_out (ts ! k))"
    and h0: "s_mcodr s = (if ts = [] then s_mcodr ?s0 else Some (trial_out (last ts)))"
    by blast
  have a: "length ts = n" using a0 by simp
  have b: "s_log s = c0 # concat (map (trial_entries e) ts)" using b0 by (simp add: s0)
  have d1: "length (s_mcb s) = n" using d0 by (simp add: s0 empty_array_shape)
  have f: "\<forall>k<n. s_mcb s ! k = table_row (e_p e) (trial_out (ts ! k))"
    using f0 by simp
  have tab: "s_mcb s = map (\<lambda>t. table_row (e_p e) (trial_out t)) ts"
    using a d1 f by (intro nth_equalityI) simp_all
  have n: "0 < n" using h0 mo a by (cases ts) (auto simp: s0)
  have c0: "c0 = Call_odrP (d_Hd d) (d_Hr d) (take (nocoefs (avhrrNx w)) coefs) fixb fixx
              (if nt then None else Some (d_Hs d)) podr"
    using best_fit_Inr(1)[OF bf] .
  show ?thesis
  proof (rule that[of coefs d fixb fixx podr fn sLict sTo slt midx mcnt rCSar rCICTar e ts])
    show "r_log r = Call_odrP (d_Hd d) (d_Hr d) (take (nocoefs (avhrrNx w)) coefs) fixb fixx
                 (if nt then None else Some (d_Hs d)) podr
               # concat (map (trial_entries e) ts)
               @ [Call_savetxt (pjoin (os_sep w) (pjoin (os_sep w) datadir ''Results'') fn)
                    (r_mcb r) '','']"
      unfolding lg b mb c0 by simp
    show "r_mcb r = map (\<lambda>t. table_row (e_p e) (trial_out t)) ts"
      unfolding mb tab ..
    show "savetxt w (pjoin (os_sep w) (pjoin (os_sep w) datadir ''Results'') fn) (r_mcb r) '',''
          = Inr ()"
      unfolding mb by (rule sv)
    show "best_fit w nt ''m02_n15.nc'' ''n15'' (take (nocoefs (avhrrNx w)) coefs)
       (nocoefs (avhrrNx w)) (novars (avhrrNx w))
     = Inr (d, fixb, fixx, podr,
            Call_odrP (d_Hd d) (d_Hr d) (take (nocoefs (avhrrNx w)) coefs) fixb fixx
              (if nt then None else Some (d_Hs d)) podr, fn)"
      using bf unfolding c0 .
  qed (fact co c4 c5 un t1 t2 e a c ex n)+
qed

text \<open>The entries of the log of such a run, by kind.\<close>

lemma script_views:
  assumes lg: "r_log r = c0 # concat (map (trial_entries e) ts) @ [Call_savetxt fn1 M d]"
    and c0: "is_Call_odrP c0"
  shows "hd (r_log r) = c0"
    and "gens (r_log r) = map (\<lambda>t. log_genErr e (trial_err t)) ts"
    and "fits (r_log r) = map (\<lambda>t. log_odr4MC e (trial_X t) (trial_Y t) (trial_out t)) ts"
    and "saves (r_log r) = [Call_savetxt fn1 M d]"
    and "filter is_Call_odrP (r_log r) = [c0]"
proof -
  show "hd (r_log r) = c0" by (simp add: lg)
  have g: "gens (c0 # xs @ [Call_savetxt fn1 M d]) = gens xs" for xs
    using c0 by (cases c0) (simp_all add: gens_def)
  have f: "fits (c0 # xs @ [Call_savetxt fn1 M d]) = fits xs" for xs
    using c0 by (cases c0) (simp_all add: fits_def)
  have s: "saves (c0 # xs @ [Call_savetxt fn1 M d]) = saves xs @ [Call_savetxt fn1 M d]" for xs
    using c0 by (cases c0) (simp_all add: saves_def)
  have p: "filter is_Call_odrP (c0 # xs @ [Call_savetxt fn1 M d]) = c0 # filter is_Call_odrP xs"
    for xs using c0 by simp
  show "gens (r_log r) = map (\<lambda>t. log_genErr e (trial_err t)) ts"
    unfolding lg g by (rule views_of_trials)
  show "fits (r_log r) = map (\<lambda>t. log_odr4MC e (trial_X t) (trial_Y t) (trial_out t)) ts"
    unfolding lg f by (rule views_of_trials)
  show "saves (r_log r) = [Call_savetxt fn1 M d]"
    unfolding lg s by (simp add: views_of_trials)
  show "filter is_Call_odrP (r_log r) = [c0]"
    unfolding lg p by (simp add: views_of_trials)
qed

section \<open>The script on the small data set\<close>

lemma upt_small:
  "[0..<7] = [0, 1, 2, 3, 4, 5, 6]" "[0..<4] = [0, 1, 2, 3]" "[0..<3] = [0, 1, 2]"
  "[0..<2] = [0, 1]"
  by (simp_all add: upt_rec)

lemma example_data_simps:
  "d_rsp example_data = 1" "d_Im example_data = [[-1, 15, 3]]"
  "d_Hd example_data = [[90, 1, 4, 7, 10, 280, 0], [190, 2, 5, 8, 11, 290, 0], [290, 3, 6, 9, 12, 300, 0]]"
  "d_Hr example_data = [[1, 1, 1, 1, 1, 0, 1], [1, 1, 1, 1, 1, 0, 1], [1, 1, 1, 1, 1, 0, 1]]"
  "d_Hs example_data = [[0, 0, 0, 0, 2, 0, 0], [0, 0, 0, 0, 2, 0, 0], [0, 0, 0, 0, 2, 0, 0]]"
  "d_corIdx example_data = [10, 10, 20]" "d_corLen example_data = [25]"
  "d_csUr example_data = [5, 5, 6]" "d_cictUr example_data = [7, 7, 8]"
  by (simp_all add: example_data_def)

lemma example_unique: "unique [10, 10, 20] = ([10, 20], [0, 2], [2, 1])"
  by (simp add: unique_def Let_def)

lemma example_resetHs:
  "resetHs_spec example_required 3 [[0, 0, 0, 0, 2, 0, 0], [0, 0, 0, 0, 2, 0, 0], [0, 0, 0, 0, 2, 0, 0]] rsp
   = Inr example_Hs_reset"
  by (simp add: resetHs_spec_def example_required_def example_Hs_reset_def upt_small)

lemma example_genErr:
  "genErr_spec ones_draws [[1, 1, 1, 1, 1, 0, 1], [1, 1, 1, 1, 1, 0, 1], [1, 1, 1, 1, 1, 0, 1]]
     2 3 [5, 6] [7, 8] [10, 20] [25] [2, 1]
   = Inr ([[1, 5, 7, 1, 3, 3, 1], [1, 5, 7, 1, 3, 3, 1], [1, 6, 8, 1, 3, 3, 1]], ones_draws)"
  "genErr_spec ones_draws [[1, 1, 1, 1, 1, 1, 1], [1, 1, 1, 1, 1, 1, 1], [1, 1, 1, 1, 1, 1, 1]]
     2 0 [5, 6] [7, 8] [10, 20] [25] [2, 1]
   = Inr ([[1, 5, 7, 1, 3, 1, 1], [1, 5, 7, 1, 3, 1, 1], [1, 6, 8, 1, 3, 1, 1]], ones_draws)"
  by (simp_all add: genErr_spec_def Let_def upt_small independent_component_def
      scanline_component_def systematic_component_def ones_draws_def fun_eq_iff)

lemma example_genErr_Suc:
  "genErr_spec ones_draws [[1, 1, 1, 1, 1, 0, 1], [1, 1, 1, 1, 1, 0, 1], [1, 1, 1, 1, 1, 0, 1]]
     2 3 [5, 6] [7, 8] [10, 20] [25] [Suc (Suc 0), Suc 0]
   = Inr ([[1, 5, 7, 1, 3, 3, 1], [1, 5, 7, 1, 3, 3, 1], [1, 6, 8, 1, 3, 3, 1]], ones_draws)"
  "genErr_spec ones_draws [[1, 1, 1, 1, 1, 1, 1], [1, 1, 1, 1, 1, 1, 1], [1, 1, 1, 1, 1, 1, 1]]
     2 0 [5, 6] [7, 8] [10, 20] [25] [Suc (Suc 0), Suc 0]
   = Inr ([[1, 5, 7, 1, 3, 1, 1], [1, 5, 7, 1, 3, 1, 1], [1, 6, 8, 1, 3, 1, 1]], ones_draws)"
  using example_genErr by (simp_all add: numeral_2_eq_2)

lemmas example_defs = script_def prepare_def finish_def best_fit_def mc_trial_def perturb_def
  trial_fit_def store_def example_world_def example_best_def example_trial_fit_def T_def
  cols_def col_def add_mat_def add_vec_def bc_mat_def bc_vec_def bc_len_def stretch_def
  set_row_slice_def set_cell_def take_idx_def cell_def
  ones_last0_def empty_array_def init_state_def make_env_def filelist_def pjoin_def
  read_name_def log_genErr_def log_odr4MC_def set_col_def bindE_def example_data_simps
  example_unique example_genErr_Suc example_resetHs example_Hs_reset_def upt_small Let_def
  eval_nat_numeral

lemma example_run:
  "script example_world False 2 ones_draws g st et
   = Inr \<lparr>r_log = example_log, r_mcb = [[1, 2, 4], [1, 2, 4]], r_exect = et - st\<rparr>"
  by (simp add: example_defs example_log_def)

lemma example_run_notime:
  "script example_world True 2 ones_draws g st et
   = Inr \<lparr>r_log = example_log_notime, r_mcb = [[1, 2, 4], [1, 2, 4]], r_exect = et - st\<rparr>"
  by (simp add: example_defs example_log_notime_def)

section \<open>What a completed run did\<close>

lemma log_odr4MC_sel [simp]:
  "a_X (log_odr4MC e Xdt Ydt mcodr) = Xdt" "a_Y (log_odr4MC e Xdt Ydt mcodr) = Ydt"
  "a_Hr (log_odr4MC e Xdt Ydt mcodr) = e_Hr e" "a_beta0 (log_odr4MC e Xdt Ydt mcodr) = e_bodr e"
  "a_out (log_odr4MC e Xdt Ydt mcodr) = mcodr"
  "a_fixb (log_odr4MC e Xdt Ydt mcodr) = (if e_notime e then None else e_fixb e)"
  "a_fixx (log_odr4MC e Xdt Ydt mcodr) = (if e_notime e then None else e_fixx e)"
  "a_Hs (log_odr4MC e Xdt Ydt mcodr) = (if e_notime e then None else Some (e_Hs e))"
  by (simp_all add: log_odr4MC_def)

lemma log_genErr_sel [simp]:
  "g_errStr (log_genErr e errStr) = errStr" "g_Hr (log_genErr e errStr) = e_Hr e"
  "g_sLict (log_genErr e errStr) = e_sLict e" "g_sTo (log_genErr e errStr) = e_sTo e"
  by (simp_all add: log_genErr_def)

lemma make_env_sel [simp]:
  "e_notime (make_env nt p d fixb fixx podr sLict sTo rCSar rCICTar slt mcnt) = nt"
  "e_p (make_env nt p d fixb fixx podr sLict sTo rCSar rCICTar slt mcnt) = p"
  "e_X (make_env nt p d fixb fixx podr sLict sTo rCSar rCICTar slt mcnt) = odr_xplus podr"
  "e_Y (make_env nt p d fixb fixx podr sLict sTo rCSar rCICTar slt mcnt) = odr_y podr"
  "e_Hr (make_env nt p d fixb fixx podr sLict sTo rCSar rCICTar slt mcnt) = d_Hr d"
  "e_Hs (make_env nt p d fixb fixx podr sLict sTo rCSar rCICTar slt mcnt) = d_Hs d"
  "e_sLict (make_env nt p d fixb fixx podr sLict sTo rCSar rCICTar slt mcnt) = sLict"
  "e_sTo (make_env nt p d fixb fixx podr sLict sTo rCSar rCICTar slt mcnt) = sTo"
  "e_bodr (make_env nt p d fixb fixx podr sLict sTo rCSar rCICTar slt mcnt) = odr_beta podr"
  "e_fixb (make_env nt p d fixb fixx podr sLict sTo rCSar rCICTar slt mcnt) = fixb"
  "e_fixx (make_env nt p d fixb fixx podr sLict sTo rCSar rCICTar slt mcnt) = fixx"
  by (simp_all add: make_env_def)

text \<open>
  The facts about a completed run that the theorems below draw on, in terms of its log
  only: \<open>c0\<close> is the first entry, the best-estimate fit; trial \<open>k\<close> has the
  \<open>k\<close>-th call of the generator and the \<open>k\<close>-th trial fit.
\<close>

lemma run_facts:
  assumes run: "script w nt n rng0 g st et = Inr r"
  obtains d fixb fixx podr fn e ts coefs sLict sTo where
    "hd (r_log r) = Call_odrP (d_Hd d) (d_Hr d) (take (nocoefs (avhrrNx w)) coefs) fixb fixx
                      (if nt then None else Some (d_Hs d)) podr"
    "filter is_Call_odrP (r_log r) = [hd (r_log r)]"
    "gens (r_log r) = map (\<lambda>t. log_genErr e (trial_err t)) ts"
    "fits (r_log r) = map (\<lambda>t. log_odr4MC e (trial_X t) (trial_Y t) (trial_out t)) ts"
    "saves (r_log r)
       = [Call_savetxt (pjoin (os_sep w) (pjoin (os_sep w) datadir ''Results'') fn) (r_mcb r) '','']"
    "length ts = n" "list_all (trial_ok w e) ts"
    "r_mcb r = map (\<lambda>t. table_row (e_p e) (trial_out t)) ts"
    "e = make_env nt (length (take (nocoefs (avhrrNx w)) coefs)) d fixb fixx podr sLict sTo
           (e_rCSar e) (e_rCICTar e) (e_slt e) (e_mcnt e)"
    "best_fit w nt ''m02_n15.nc'' ''n15'' (take (nocoefs (avhrrNx w)) coefs)
       (nocoefs (avhrrNx w)) (novars (avhrrNx w))
     = Inr (d, fixb, fixx, podr, hd (r_log r), fn)"
    "cell (d_Hs d) 0 4 = Inr sLict" "cell (d_Hs d) 0 5 = Inr sTo"
    "savetxt w (pjoin (os_sep w) (pjoin (os_sep w) datadir ''Results'') fn) (r_mcb r) '','' = Inr ()"
    "0 < n"
proof (rule script_run[OF run], goal_cases)
  case (1 coefs d fixb fixx podr fn sLict sTo slt midx mcnt rCSar rCICTar e ts)
  have lg: "r_log r = Call_odrP (d_Hd d) (d_Hr d) (take (nocoefs (avhrrNx w)) coefs) fixb fixx
                 (if nt then None else Some (d_Hs d)) podr
               # concat (map (trial_entries e) ts)
               @ [Call_savetxt (pjoin (os_sep w) (pjoin (os_sep w) datadir ''Results'') fn)
                    (r_mcb r) '','']"
    and e: "e = make_env nt (min (length coefs) (nocoefs (avhrrNx w))) d fixb fixx podr sLict sTo
           rCSar rCICTar slt mcnt"
    and bf: "best_fit w nt ''m02_n15.nc'' ''n15'' (take (nocoefs (avhrrNx w)) coefs)
       (nocoefs (avhrrNx w)) (novars (avhrrNx w))
     = Inr (d, fixb, fixx, podr,
            Call_odrP (d_Hd d) (d_Hr d) (take (nocoefs (avhrrNx w)) coefs) fixb fixx
              (if nt then None else Some (d_Hs d)) podr, fn)"
    and len: "length ts = n" and ok: "list_all (trial_ok w e) ts"
    and tab: "r_mcb r = map (\<lambda>t. table_row (e_p e) (trial_out t)) ts"
    and c4: "cell (d_Hs d) 0 4 = Inr sLict" and c5: "cell (d_Hs d) 0 5 = Inr sTo"
    and sv: "savetxt w (pjoin (os_sep w) (pjoin (os_sep w) datadir ''Results'') fn) (r_mcb r) '','' = Inr ()"
    and n: "0 < n"
    by (fact 1)+
  have c0: "is_Call_odrP (Call_odrP (d_Hd d) (d_Hr d) (take (nocoefs (avhrrNx w)) coefs) fixb fixx
                 (if nt then None else Some (d_Hs d)) podr)"
    by simp
  note V = script_views[OF lg c0]
  show ?thesis
  proof (rule that[of d coefs fixb fixx podr e ts fn sLict sTo])
    show "hd (r_log r) = Call_odrP (d_Hd d) (d_Hr d) (take (nocoefs (avhrrNx w)) coefs) fixb fixx
                      (if nt then None else Some (d_Hs d)) podr"
      by (rule V(1))
    show "filter is_Call_odrP (r_log r) = [hd (r_log r)]"
      unfolding V(1) by (rule V(5))
    show "e = make_env nt (length (take (nocoefs (avhrrNx w)) coefs)) d fixb fixx podr sLict sTo
           (e_rCSar e) (e_rCICTar e) (e_slt e) (e_mcnt e)"
      unfolding e by (simp add: make_env_def)
    show "best_fit w nt ''m02_n15.nc'' ''n15'' (take (nocoefs (avhrrNx w)) coefs)
       (nocoefs (avhrrNx w)) (novars (avhrrNx w))
     = Inr (d, fixb, fixx, podr, hd (r_log r), fn)"
      unfolding V(1) by (rule bf)
    show "gens (r_log r) = map (\<lambda>t. log_genErr e (trial_err t)) ts" by (rule V(2))
    show "fits (r_log r) = map (\<lambda>t. log_odr4MC e (trial_X t) (trial_Y t) (trial_out t)) ts"
      by (rule V(3))
    show "saves (r_log r)
       = [Call_savetxt (pjoin (os_sep w) (pjoin (os_sep w) datadir ''Results'') fn) (r_mcb r) '','']"
      by (rule V(4))
    show "length ts = n" by (rule len)
    show "list_all (trial_ok w e) ts" by (rule ok)
    show "r_mcb r = map (\<lambda>t. table_row (e_p e) (trial_out t)) ts" by (rule tab)
    show "cell (d_Hs d) 0 4 = Inr sLict" by (rule c4)
    show "cell (d_Hs d) 0 5 = Inr sTo" by (rule c5)
    show "savetxt w (pjoin (os_sep w) (pjoin (os_sep w) datadir ''Results'') fn) (r_mcb r) '','' = Inr ()"
      by (rule sv)
    show "0 < n" by (rule n)
  qed
qed

section \<open>The data of a trial (C2)\<close>

text \<open>
  Claim C2. In a run that completes, on data of the shape of the data model (the best
  estimate \<open>podr.xplus\<close> has the five explanatory variables of every match-up,
  \<open>podr.y\<close> one response per match-up, and the trial's error matrix one row per
  match-up), the data of every trial are the best estimates of the best-estimate fit
  (the result of the first call in the log) plus the trial's error matrix: \<open>Xdt\<close>
  has a row of five entries per match-up, entry \<open>(rec, c)\<close> being
  \<open>xplus[c, rec] + errStr[rec, c + 1]\<close>, and entry \<open>rec\<close> of \<open>Ydt\<close> is
  \<open>y[rec] + errStr[rec, 0] + errStr[rec, 6]\<close>, the error of the response plus that of
  the adjustment K.
\<close>

theorem trial_data_is_best_estimate_plus_error:
  assumes run: "script w nt n rng0 g st et = Inr r" and k: "k < n"
    and X5: "length (odr_xplus (a_out (hd (r_log r)))) = 5"
    and XN: "list_all (\<lambda>row. length row = length (odr_y (a_out (hd (r_log r)))))
               (odr_xplus (a_out (hd (r_log r))))"
    and EN: "length (g_errStr (gens (r_log r) ! k)) = length (odr_y (a_out (hd (r_log r))))"
  shows "is_Call_odrP (hd (r_log r)) \<and> length (gens (r_log r)) = n \<and> length (fits (r_log r)) = n
    \<and> length (a_X (fits (r_log r) ! k)) = length (odr_y (a_out (hd (r_log r))))
    \<and> list_all (\<lambda>row. length row = 5) (a_X (fits (r_log r) ! k))
    \<and> (\<forall>rec c. rec < length (odr_y (a_out (hd (r_log r)))) \<and> c < 5
          \<longrightarrow> a_X (fits (r_log r) ! k) ! rec ! c
                = odr_xplus (a_out (hd (r_log r))) ! c ! rec
                  + g_errStr (gens (r_log r) ! k) ! rec ! (c + 1))
    \<and> length (a_Y (fits (r_log r) ! k)) = length (odr_y (a_out (hd (r_log r))))
    \<and> (\<forall>rec. rec < length (odr_y (a_out (hd (r_log r))))
          \<longrightarrow> a_Y (fits (r_log r) ! k) ! rec
                = odr_y (a_out (hd (r_log r))) ! rec + g_errStr (gens (r_log r) ! k) ! rec ! 0
                  + g_errStr (gens (r_log r) ! k) ! rec ! 6)"
proof (rule run_facts[OF run], goal_cases)
  case (1 d fixb fixx podr fn e ts coefs sLict sTo)
  have hd: "hd (r_log r) = Call_odrP (d_Hd d) (d_Hr d) (take (nocoefs (avhrrNx w)) coefs) fixb fixx
                      (if nt then None else Some (d_Hs d)) podr"
    and gens: "gens (r_log r) = map (\<lambda>t. log_genErr e (trial_err t)) ts"
    and fits: "fits (r_log r) = map (\<lambda>t. log_odr4MC e (trial_X t) (trial_Y t) (trial_out t)) ts"
    and len: "length ts = n" and ok: "list_all (trial_ok w e) ts"
    and e: "e = make_env nt (length (take (nocoefs (avhrrNx w)) coefs)) d fixb fixx podr sLict sTo
           (e_rCSar e) (e_rCICTar e) (e_slt e) (e_mcnt e)"
    by (fact 1)+
  have eX: "e_X e = odr_xplus podr" and eY: "e_Y e = odr_y podr" by (subst e, simp)+
  have pe: "perturb (odr_xplus podr) (odr_y podr) (trial_err (ts ! k))
            = Inr (trial_X (ts ! k), trial_Y (ts ! k))"
    using ok k len by (simp add: list_all_length trial_ok_def eX eY)
  have F: "fits (r_log r) ! k
           = log_odr4MC e (trial_X (ts ! k)) (trial_Y (ts ! k)) (trial_out (ts ! k))"
    and G: "gens (r_log r) ! k = log_genErr e (trial_err (ts ! k))"
    using k len by (simp_all add: fits gens)
  have out: "a_out (hd (r_log r)) = podr" by (simp add: hd)
  have X5': "length (odr_xplus podr) = 5"
    and XN': "list_all (\<lambda>row. length row = length (odr_y podr)) (odr_xplus podr)"
    and EN': "length (trial_err (ts ! k)) = length (odr_y podr)"
    using X5 XN EN unfolding G out log_genErr_sel by simp_all
  note P = perturb_shaped[OF pe X5' XN' EN']
  have a: "is_Call_odrP (hd (r_log r))" by (simp add: hd)
  have b: "length (gens (r_log r)) = n" "length (fits (r_log r)) = n"
    using len by (simp_all add: gens fits)
  show ?case
    unfolding F G out log_odr4MC_sel log_genErr_sel
    using a b P by simp
qed

section \<open>The table of the trials (C3, C4)\<close>

text \<open>
  Claim C3. In a run that completes, the row of every trial holds what the trial's fit
  returned, whatever its status: the coefficients (by the rule of the slice assignment
  they are as many as the initial coefficients, or a single one that is repeated) and
  then the status code. The one table that is written is this table, with one row per
  trial, none left out.
\<close>

theorem every_trial_is_recorded:
  assumes run: "script w nt n rng0 g st et = Inr r" and k: "k < n"
  shows "length (r_mcb r) = n \<and> length (fits (r_log r)) = n
    \<and> (length (odr_beta (a_out (fits (r_log r) ! k))) = length (a_beta0 (hd (r_log r)))
         \<or> length (odr_beta (a_out (fits (r_log r) ! k))) = 1)
    \<and> r_mcb r ! k
        = (if length (odr_beta (a_out (fits (r_log r) ! k))) = length (a_beta0 (hd (r_log r)))
           then odr_beta (a_out (fits (r_log r) ! k))
           else replicate (length (a_beta0 (hd (r_log r)))) (odr_beta (a_out (fits (r_log r) ! k)) ! 0))
          @ [real_of_int (odr_info (a_out (fits (r_log r) ! k)))]
    \<and> map sv_table (saves (r_log r)) = [r_mcb r]"
proof (rule run_facts[OF run], goal_cases)
  case (1 d fixb fixx podr fn e ts coefs sLict sTo)
  have hd: "hd (r_log r) = Call_odrP (d_Hd d) (d_Hr d) (take (nocoefs (avhrrNx w)) coefs) fixb fixx
                      (if nt then None else Some (d_Hs d)) podr"
    and fits: "fits (r_log r) = map (\<lambda>t. log_odr4MC e (trial_X t) (trial_Y t) (trial_out t)) ts"
    and saves: "saves (r_log r)
       = [Call_savetxt (pjoin (os_sep w) (pjoin (os_sep w) datadir ''Results'') fn) (r_mcb r) '','']"
    and len: "length ts = n" and ok: "list_all (trial_ok w e) ts"
    and tab: "r_mcb r = map (\<lambda>t. table_row (e_p e) (trial_out t)) ts"
    and e: "e = make_env nt (length (take (nocoefs (avhrrNx w)) coefs)) d fixb fixx podr sLict sTo
           (e_rCSar e) (e_rCICTar e) (e_slt e) (e_mcnt e)"
    by (fact 1)+
  have ep: "e_p e = length (a_beta0 (hd (r_log r)))" by (subst e) (simp add: hd)
  have F: "a_out (fits (r_log r) ! k) = trial_out (ts ! k)"
    using k len by (simp add: fits)
  have lb: "length (odr_beta (trial_out (ts ! k))) = e_p e \<or> length (odr_beta (trial_out (ts ! k))) = 1"
    using ok k len by (simp add: list_all_length trial_ok_def)
  have row: "r_mcb r ! k = table_row (e_p e) (trial_out (ts ! k))"
    using k len by (simp add: tab)
  show ?case
    unfolding F using lb row len by (simp add: ep[symmetric] table_row_def tab fits saves)
qed

text \<open>
  Claim C4. A run of \<open>N\<close> trials that completes writes exactly one table, comma
  delimited, to the file of the results; the table has \<open>N\<close> rows of \<open>p + 1\<close> entries,
  \<open>p\<close> the number of initial coefficients; the first \<open>p\<close> entries of row \<open>k\<close> are the
  coefficients of trial \<open>k\<close> and the last one is its status code.
\<close>

theorem persisted_table:
  assumes run: "script w nt n rng0 g st et = Inr r"
  shows "saves (r_log r)
      = [Call_savetxt (pjoin (os_sep w) (pjoin (os_sep w) datadir ''Results'')
            (''n15'' @ (if nt then ''_notd_mcerrst_beta.txt'' else ''_mcerrst_beta.txt'')))
           (r_mcb r) '','']
    \<and> savetxt w (pjoin (os_sep w) (pjoin (os_sep w) datadir ''Results'')
            (''n15'' @ (if nt then ''_notd_mcerrst_beta.txt'' else ''_mcerrst_beta.txt'')))
         (r_mcb r) '','' = Inr ()
    \<and> length (r_mcb r) = n \<and> length (fits (r_log r)) = n
    \<and> (\<forall>k<n. length (r_mcb r ! k) = length (a_beta0 (hd (r_log r))) + 1
         \<and> take (length (a_beta0 (hd (r_log r)))) (r_mcb r ! k)
            = (if length (odr_beta (a_out (fits (r_log r) ! k))) = length (a_beta0 (hd (r_log r)))
               then odr_beta (a_out (fits (r_log r) ! k))
               else replicate (length (a_beta0 (hd (r_log r))))
                      (odr_beta (a_out (fits (r_log r) ! k)) ! 0))
         \<and> r_mcb r ! k ! length (a_beta0 (hd (r_log r)))
            = real_of_int (odr_info (a_out (fits (r_log r) ! k))))"
proof (rule run_facts[OF run], goal_cases)
  case (1 d fixb fixx podr fn e ts coefs sLict sTo)
  have hd: "hd (r_log r) = Call_odrP (d_Hd d) (d_Hr d) (take (nocoefs (avhrrNx w)) coefs) fixb fixx
                      (if nt then None else Some (d_Hs d)) podr"
    and fits: "fits (r_log r) = map (\<lambda>t. log_odr4MC e (trial_X t) (trial_Y t) (trial_out t)) ts"
    and saves: "saves (r_log r)
       = [Call_savetxt (pjoin (os_sep w) (pjoin (os_sep w) datadir ''Results'') fn) (r_mcb r) '','']"
    and sv: "savetxt w (pjoin (os_sep w) (pjoin (os_sep w) datadir ''Results'') fn) (r_mcb r) '',''
             = Inr ()"
    and len: "length ts = n"
    and tab: "r_mcb r = map (\<lambda>t. table_row (e_p e) (trial_out t)) ts"
    and e: "e = make_env nt (length (take (nocoefs (avhrrNx w)) coefs)) d fixb fixx podr sLict sTo
           (e_rCSar e) (e_rCICTar e) (e_slt e) (e_mcnt e)"
    and bf: "best_fit w nt ''m02_n15.nc'' ''n15'' (take (nocoefs (avhrrNx w)) coefs)
       (nocoefs (avhrrNx w)) (novars (avhrrNx w))
     = Inr (d, fixb, fixx, podr, hd (r_log r), fn)"
    by (fact 1)+
  have ep: "e_p e = length (a_beta0 (hd (r_log r)))" by (subst e) (simp add: hd)
  have fn: "fn = ''n15'' @ (if nt then ''_notd_mcerrst_beta.txt'' else ''_mcerrst_beta.txt'')"
    by (rule best_fit_Inr(3)[OF bf])
  have rows: "\<forall>k<n. length (r_mcb r ! k) = e_p e + 1
         \<and> take (e_p e) (r_mcb r ! k)
            = (if length (odr_beta (a_out (fits (r_log r) ! k))) = e_p e
               then odr_beta (a_out (fits (r_log r) ! k))
               else replicate (e_p e) (odr_beta (a_out (fits (r_log r) ! k)) ! 0))
         \<and> r_mcb r ! k ! e_p e = real_of_int (odr_info (a_out (fits (r_log r) ! k)))"
    using len by (auto simp: tab fits table_row_def nth_append)
  show ?case
    using saves sv len rows unfolding ep fn by (simp add: tab fits)
qed

section \<open>The configuration of the trial fits (C5)\<close>

text \<open>
  Claim C5. In a run that completes, the log has one best-estimate fit, its first entry.
  Every trial fit starts from the coefficients that fit returned (\<open>podr.beta\<close>) and is
  given the same coefficient fix-mask, the same variable fix-mask, the same matrix of
  systematic uncertainties and the same matrix of random uncertainties as that fit
  (none of the first three in the branch \<open>notime\<close>, where neither call passes them).
\<close>

theorem trial_fit_reuses_best_fit_configuration:
  assumes run: "script w nt n rng0 g st et = Inr r" and k: "k < n"
  shows "is_Call_odrP (hd (r_log r)) \<and> filter is_Call_odrP (r_log r) = [hd (r_log r)]
    \<and> odrP w (a_Hd (hd (r_log r))) (a_Hr (hd (r_log r))) (a_beta0 (hd (r_log r))) (avhrrNx w)
         (a_fixb (hd (r_log r))) (a_fixx (hd (r_log r))) (a_Hs (hd (r_log r)))
       = Inr (a_out (hd (r_log r)))
    \<and> length (fits (r_log r)) = n
    \<and> a_beta0 (fits (r_log r) ! k) = odr_beta (a_out (hd (r_log r)))
    \<and> a_fixb (fits (r_log r) ! k) = a_fixb (hd (r_log r))
    \<and> a_fixx (fits (r_log r) ! k) = a_fixx (hd (r_log r))
    \<and> a_Hs (fits (r_log r) ! k) = a_Hs (hd (r_log r))
    \<and> a_Hr (fits (r_log r) ! k) = a_Hr (hd (r_log r))
    \<and> odr4MC w (a_X (fits (r_log r) ! k)) (a_Y (fits (r_log r) ! k)) (a_Hr (fits (r_log r) ! k))
         (a_beta0 (fits (r_log r) ! k)) (avhrrNx w) (a_fixb (fits (r_log r) ! k))
         (a_fixx (fits (r_log r) ! k)) (a_Hs (fits (r_log r) ! k))
       = Inr (a_out (fits (r_log r) ! k))"
proof (rule run_facts[OF run], goal_cases)
  case (1 d fixb fixx podr fn e ts coefs sLict sTo)
  have hd: "hd (r_log r) = Call_odrP (d_Hd d) (d_Hr d) (take (nocoefs (avhrrNx w)) coefs) fixb fixx
                      (if nt then None else Some (d_Hs d)) podr"
    and one: "filter is_Call_odrP (r_log r) = [hd (r_log r)]"
    and fits: "fits (r_log r) = map (\<lambda>t. log_odr4MC e (trial_X t) (trial_Y t) (trial_out t)) ts"
    and len: "length ts = n" and ok: "list_all (trial_ok w e) ts"
    and e: "e = make_env nt (length (take (nocoefs (avhrrNx w)) coefs)) d fixb fixx podr sLict sTo
           (e_rCSar e) (e_rCICTar e) (e_slt e) (e_mcnt e)"
    and bf: "best_fit w nt ''m02_n15.nc'' ''n15'' (take (nocoefs (avhrrNx w)) coefs)
       (nocoefs (avhrrNx w)) (novars (avhrrNx w))
     = Inr (d, fixb, fixx, podr, hd (r_log r), fn)"
    by (fact 1)+
  have es: "e_notime e = nt" "e_Hr e = d_Hr d" "e_Hs e = d_Hs d" "e_bodr e = odr_beta podr"
    "e_fixb e = fixb" "e_fixx e = fixx"
    by (subst e, simp)+
  have none: "nt \<Longrightarrow> fixb = None \<and> fixx = None"
    using best_fit_Inr(4)[OF bf] by blast
  have F: "fits (r_log r) ! k
           = log_odr4MC e (trial_X (ts ! k)) (trial_Y (ts ! k)) (trial_out (ts ! k))"
    using k len by (simp add: fits)
  have tf: "trial_fit w e (trial_X (ts ! k)) (trial_Y (ts ! k)) = Inr (trial_out (ts ! k))"
    using ok k len by (simp add: list_all_length trial_ok_def)
  have call: "odr4MC w (trial_X (ts ! k)) (trial_Y (ts ! k)) (d_Hr d) (odr_beta podr) (avhrrNx w)
                (if nt then None else fixb) (if nt then None else fixx)
                (if nt then None else Some (d_Hs d)) = Inr (trial_out (ts ! k))"
    using tf by (simp add: trial_fit_def es split: if_splits)
  show ?case
    unfolding F log_odr4MC_sel es
    using best_fit_Inr(2)[OF bf] none one call len
    by (simp add: hd fits)
qed

section \<open>The uncertainties that are replaced before the fits (C7)\<close>

lemma resetHs_spec_Inr:
  assumes "resetHs_spec required placeholder Hs rsp = Inr Hs1"
  shows "length Hs1 = length Hs"
    and "\<And>i c. i < length Hs \<Longrightarrow> c < length (Hs ! i) \<Longrightarrow>
           length (Hs1 ! i) = length (Hs ! i)
           \<and> Hs1 ! i ! c = (if required c \<and> Hs ! i ! c = 0 then placeholder else Hs ! i ! c)"
  using assms by (auto simp: resetHs_spec_def)

text \<open>
  Claim C7, with the reset of the systematic uncertainties as the specification has
  it. In a run that completes, the first entry of the log is the best-estimate fit, so
  what follows holds before any fit is made, and every trial fit and every call of the
  error generator receive the same matrices as that fit. In the branch \<open>notime\<close> the
  random uncertainty of the orbit temperature (column 5) is set to 1 in every row of the
  matrix read from the file. In the time-dependent branch the matrix of systematic
  uncertainties is the one read from the file with every 0 of a variable that needs a
  nonzero uncertainty replaced by the placeholder, so that no such entry is 0; the two
  systematic uncertainties of the error generator are read from this matrix.
\<close>

theorem uncertainties_replaced_before_fits:
  assumes run: "script w nt n rng0 g st et = Inr r"
    and rs: "resetHs w = resetHs_spec required placeholder" and ph: "placeholder \<noteq> 0"
  shows "is_Call_odrP (hd (r_log r))
    \<and> list_all (\<lambda>F. a_Hr F = a_Hr (hd (r_log r)) \<and> a_Hs F = a_Hs (hd (r_log r))) (fits (r_log r))
    \<and> list_all (\<lambda>G. g_Hr G = a_Hr (hd (r_log r))) (gens (r_log r))
    \<and> (nt \<longrightarrow>
         (\<exists>d0. rHDpair w (pjoin (os_sep w) datadir ''newSim_notime'') ''m02_n15.nc'' = Inr d0
            \<and> a_Hr (hd (r_log r)) = map (\<lambda>row. row[5 := 1]) (d_Hr d0))
         \<and> list_all (\<lambda>row. 5 < length row \<and> row ! 5 = 1) (a_Hr (hd (r_log r))))
    \<and> (\<not> nt \<longrightarrow>
         (\<exists>d0 Hs1. rHDpair w datadir ''m02_n15.nc'' = Inr d0
            \<and> a_Hs (hd (r_log r)) = Some Hs1 \<and> length Hs1 = length (d_Hs d0)
            \<and> (\<forall>i c. i < length (d_Hs d0) \<and> c < length (d_Hs d0 ! i) \<longrightarrow>
                  length (Hs1 ! i) = length (d_Hs d0 ! i)
                  \<and> Hs1 ! i ! c = (if required c \<and> d_Hs d0 ! i ! c = 0 then placeholder
                                   else d_Hs d0 ! i ! c)
                  \<and> (required c \<longrightarrow> Hs1 ! i ! c \<noteq> 0))
            \<and> list_all (\<lambda>G. g_sLict G = Hs1 ! 0 ! 4 \<and> g_sTo G = Hs1 ! 0 ! 5) (gens (r_log r))))"
proof (rule run_facts[OF run], goal_cases)
  case (1 d fixb fixx podr fn e ts coefs sLict sTo)
  have hd: "hd (r_log r) = Call_odrP (d_Hd d) (d_Hr d) (take (nocoefs (avhrrNx w)) coefs) fixb fixx
                      (if nt then None else Some (d_Hs d)) podr"
    and gens: "gens (r_log r) = map (\<lambda>t. log_genErr e (trial_err t)) ts"
    and fits: "fits (r_log r) = map (\<lambda>t. log_odr4MC e (trial_X t) (trial_Y t) (trial_out t)) ts"
    and e: "e = make_env nt (length (take (nocoefs (avhrrNx w)) coefs)) d fixb fixx podr sLict sTo
           (e_rCSar e) (e_rCICTar e) (e_slt e) (e_mcnt e)"
    and bf: "best_fit w nt ''m02_n15.nc'' ''n15'' (take (nocoefs (avhrrNx w)) coefs)
       (nocoefs (avhrrNx w)) (novars (avhrrNx w))
     = Inr (d, fixb, fixx, podr, hd (r_log r), fn)"
    and c4: "cell (d_Hs d) 0 4 = Inr sLict" and c5: "cell (d_Hs d) 0 5 = Inr sTo"
    by (fact 1)+
  have es: "e_notime e = nt" "e_Hr e = d_Hr d" "e_Hs e = d_Hs d" "e_sLict e = sLict" "e_sTo e = sTo"
    by (subst e, simp)+
  have s45: "sLict = d_Hs d ! 0 ! 4" "sTo = d_Hs d ! 0 ! 5"
    using c4 c5 by (auto simp: cell_def split: if_splits)
  have a: "is_Call_odrP (hd (r_log r))" by (simp add: hd)
  have b: "list_all (\<lambda>F. a_Hr F = a_Hr (hd (r_log r)) \<and> a_Hs F = a_Hs (hd (r_log r))) (fits (r_log r))"
    by (simp add: fits hd list_all_length es)
  have c: "list_all (\<lambda>G. g_Hr G = a_Hr (hd (r_log r))) (gens (r_log r))"
    by (simp add: gens hd list_all_length es)
  have t: "nt \<longrightarrow>
         (\<exists>d0. rHDpair w (pjoin (os_sep w) datadir ''newSim_notime'') ''m02_n15.nc'' = Inr d0
            \<and> a_Hr (hd (r_log r)) = map (\<lambda>row. row[5 := 1]) (d_Hr d0))
         \<and> list_all (\<lambda>row. 5 < length row \<and> row ! 5 = 1) (a_Hr (hd (r_log r)))"
  proof
    assume nt
    from best_fit_Inr(4)[OF bf this] obtain d0 where
      rd: "rHDpair w (pjoin (os_sep w) datadir ''newSim_notime'') ''m02_n15.nc'' = Inr d0"
      and sc: "set_col (d_Hr d0) 5 1 = Inr (d_Hr d)"
      by blast
    from sc have all: "list_all (\<lambda>row. 5 < length row) (d_Hr d0)"
      and eq: "d_Hr d = map (\<lambda>row. row[5 := 1]) (d_Hr d0)"
      by (auto simp: set_col_def split: if_splits)
    have "list_all (\<lambda>row. 5 < length row \<and> row ! 5 = 1) (d_Hr d)"
      using all unfolding eq by (simp add: list_all_length)
    then show "(\<exists>d0. rHDpair w (pjoin (os_sep w) datadir ''newSim_notime'') ''m02_n15.nc'' = Inr d0
            \<and> a_Hr (hd (r_log r)) = map (\<lambda>row. row[5 := 1]) (d_Hr d0))
         \<and> list_all (\<lambda>row. 5 < length row \<and> row ! 5 = 1) (a_Hr (hd (r_log r)))"
      using rd eq by (auto simp: hd)
  qed
  have f: "\<not> nt \<longrightarrow>
         (\<exists>d0 Hs1. rHDpair w datadir ''m02_n15.nc'' = Inr d0
            \<and> a_Hs (hd (r_log r)) = Some Hs1 \<and> length Hs1 = length (d_Hs d0)
            \<and> (\<forall>i c. i < length (d_Hs d0) \<and> c < length (d_Hs d0 ! i) \<longrightarrow>
                  length (Hs1 ! i) = length (d_Hs d0 ! i)
                  \<and> Hs1 ! i ! c = (if required c \<and> d_Hs d0 ! i ! c = 0 then placeholder
                                   else d_Hs d0 ! i ! c)
                  \<and> (required c \<longrightarrow> Hs1 ! i ! c \<noteq> 0))
            \<and> list_all (\<lambda>G. g_sLict G = Hs1 ! 0 ! 4 \<and> g_sTo G = Hs1 ! 0 ! 5) (gens (r_log r)))"
  proof
    assume n: "\<not> nt"
    from best_fit_Inr(5)[OF bf this] obtain d0 where
      rd: "rHDpair w datadir ''m02_n15.nc'' = Inr d0"
      and rs': "resetHs w (d_Hs d0) (d_rsp d0) = Inr (d_Hs d)"
      by blast
    from rs' have sp: "resetHs_spec required placeholder (d_Hs d0) (d_rsp d0) = Inr (d_Hs d)"
      by (simp add: rs)
    note R = resetHs_spec_Inr[OF sp]
    have ent: "\<forall>i c. i < length (d_Hs d0) \<and> c < length (d_Hs d0 ! i) \<longrightarrow>
                  length (d_Hs d ! i) = length (d_Hs d0 ! i)
                  \<and> d_Hs d ! i ! c = (if required c \<and> d_Hs d0 ! i ! c = 0 then placeholder
                                   else d_Hs d0 ! i ! c)
                  \<and> (required c \<longrightarrow> d_Hs d ! i ! c \<noteq> 0)"
      using R(2) ph by auto
    have h1: "a_Hs (hd (r_log r)) = Some (d_Hs d)"
      using n by (simp add: hd)
    have gl: "list_all (\<lambda>G. g_sLict G = d_Hs d ! 0 ! 4 \<and> g_sTo G = d_Hs d ! 0 ! 5) (gens (r_log r))"
      by (simp add: gens list_all_length es s45)
    from rd h1 R(1) ent gl show "\<exists>d0 Hs1. rHDpair w datadir ''m02_n15.nc'' = Inr d0
            \<and> a_Hs (hd (r_log r)) = Some Hs1 \<and> length Hs1 = length (d_Hs d0)
            \<and> (\<forall>i c. i < length (d_Hs d0) \<and> c < length (d_Hs d0 ! i) \<longrightarrow>
                  length (Hs1 ! i) = length (d_Hs d0 ! i)
                  \<and> Hs1 ! i ! c = (if required c \<and> d_Hs d0 ! i ! c = 0 then placeholder
                                   else d_Hs d0 ! i ! c)
                  \<and> (required c \<longrightarrow> Hs1 ! i ! c \<noteq> 0))
            \<and> list_all (\<lambda>G. g_sLict G = Hs1 ! 0 ! 4 \<and> g_sTo G = Hs1 ! 0 ! 5) (gens (r_log r))"
      by blast
  qed
  from a b c t f show ?case by blast
qed
section \<open>The errors of a scanline group (C6)\<close>

lemma first_index_mem:
  "v \<in> set xs \<Longrightarrow> first_index xs v < length xs \<and> xs ! first_index xs v = v"
  by (induction xs) auto

lemma first_index_distinct:
  "distinct xs \<Longrightarrow> g < length xs \<Longrightarrow> first_index xs (xs ! g) = g"
proof (induction xs arbitrary: g)
  case Nil
  then show ?case by simp
next
  case (Cons x xs)
  then show ?case by (cases g) auto
qed

lemma group_of_less:
  "r < sum_list cs \<Longrightarrow> group_of cs r < length cs"
  by (induction cs r rule: group_of.induct) auto

lemma group_of_Suc:
  "group_of (Suc c # cs) (Suc r) = group_of (c # cs) r"
  by simp

lemma sum_counts:
  "sum_list (map (count_list xs) (remdups xs)) = length xs"
proof -
  have "sum_list (map (count_list xs) (remdups xs)) = sum (count_list xs) (set (remdups xs))"
    by (rule sum_list_distinct_conv_sum_set) simp
  also have "\<dots> = length xs"
    by (simp add: sum_count_set)
  finally show ?thesis .
qed

lemma hd_remdups_sorted:
  "sorted xs \<Longrightarrow> xs \<noteq> [] \<Longrightarrow> hd (remdups xs) = hd xs"
proof (induction xs)
  case Nil
  then show ?case by simp
next
  case (Cons a as)
  show ?case
  proof (cases "a \<in> set as")
    case False
    then show ?thesis by simp
  next
    case True
    then have ne: "as \<noteq> []" by auto
    from Cons.prems have s: "sorted as" and le: "\<forall>y \<in> set as. a \<le> y" by simp_all
    have "hd as \<in> set as" using ne by simp
    then have 1: "a \<le> hd as" using le by blast
    from ne obtain b bs where as: "as = b # bs" by (cases as) auto
    with s True have 2: "hd as \<le> a" by auto
    from Cons.IH[OF s ne] 1 2 True show ?thesis by simp
  qed
qed

lemma count_list_notin:
  "x \<notin> set xs \<Longrightarrow> count_list xs x = 0"
  by (induction xs) auto

lemma remdups_group:
  "sorted xs \<Longrightarrow> r < length xs
   \<Longrightarrow> remdups xs ! group_of (map (count_list xs) (remdups xs)) r = xs ! r"
proof (induction xs arbitrary: r)
  case Nil
  then show ?case by simp
next
  case (Cons x xs)
  from Cons.prems have s: "sorted xs" by simp
  show ?case
  proof (cases "x \<in> set xs")
    case False
    have cnt: "map (count_list (x # xs)) (remdups xs) = map (count_list xs) (remdups xs)"
      using False by (intro map_cong) auto
    show ?thesis
    proof (cases r)
      case 0
      have cx: "count_list (x # xs) x = 1" using False by (simp add: count_list_notin)
      show ?thesis using False 0 by (simp add: cx cnt del: count_list.simps)
    next
      case (Suc r')
      then have r': "r' < length xs" using Cons.prems by simp
      have cx: "count_list (x # xs) x = 1" using False by (simp add: count_list_notin)
      from Cons.IH[OF s r'] show ?thesis
        using False Suc by (simp add: cx cnt del: count_list.simps)
    qed
  next
    case True
    then have ne: "xs \<noteq> []" by auto
    then have rne: "remdups xs \<noteq> []" by simp
    have "hd (remdups xs) = hd xs" by (rule hd_remdups_sorted[OF s ne])
    moreover have "hd xs = x"
    proof -
      from Cons.prems have le: "\<forall>y \<in> set xs. x \<le> y" by simp
      from ne obtain b bs where xs: "xs = b # bs" by (cases xs) auto
      with s True have "b \<le> x" by auto
      moreover have "x \<le> b" using le xs by simp
      ultimately show ?thesis using xs by simp
    qed
    ultimately obtain u where u: "remdups xs = x # u"
      using rne by (cases "remdups xs") auto
    have d: "distinct (x # u)" using distinct_remdups[of xs] unfolding u .
    then have xu: "x \<notin> set u" by simp
    have cnt: "map (count_list (x # xs)) u = map (count_list xs) u"
      using xu by (intro map_cong) auto
    have cx: "count_list (x # xs) x = Suc (count_list xs x)" by simp
    show ?thesis
    proof (cases r)
      case 0
      then show ?thesis using True by (simp add: u cx cnt del: count_list.simps)
    next
      case (Suc r')
      then have "r' < length xs" using Cons.prems by simp
      from Cons.IH[OF s this] have "(x # u) ! group_of (count_list xs x # map (count_list xs) u) r' = xs ! r'"
        by (simp add: u)
      moreover have "group_of (map (count_list (x # xs)) (remdups (x # xs))) r
                     = group_of (count_list xs x # map (count_list xs) u) r'"
        using True Suc by (simp add: u cnt cx del: count_list.simps)
      ultimately show ?thesis using True Suc by (simp add: u del: count_list.simps)
    qed
  qed
qed

lemma unique_sorted:
  assumes "unique a = (slt, midx, mcnt)" and "sorted a"
  shows "slt = remdups a" and "midx = map (first_index a) slt" and "mcnt = map (count_list a) slt"
    and "distinct slt" and "set slt = set a"
proof -
  have "sort (remdups a) = remdups a"
    using assms(2) by (simp add: sorted_remdups sorted_sort_id)
  with assms(1) show "slt = remdups a" and "midx = map (first_index a) slt"
    and "mcnt = map (count_list a) slt"
    by (auto simp: unique_def Let_def)
  then show "distinct slt" and "set slt = set a" by simp_all
qed

lemma take_idx_Inr:
  "take_idx xs idx = Inr ys \<Longrightarrow> length ys = length idx \<and> (\<forall>i < length idx. ys ! i = xs ! (idx ! i))"
  by (auto simp: take_idx_def split: if_splits)

lemma genErr_spec_Inr:
  assumes "length mcnt = length slt" and "length rCSar = length slt"
    and "length rCICTar = length slt" and "sum_list mcnt = length Hr"
    and "list_all (\<lambda>row. length row = 7) Hr"
  shows "\<exists>E z'. genErr_spec z Hr sLict sTo rCSar rCICTar slt corLen mcnt = Inr (E, z')
       \<and> (\<forall>r < length Hr. E ! r ! 1 = rCSar ! group_of mcnt r * z (group_of mcnt r)
            \<and> E ! r ! 2 = rCICTar ! group_of mcnt r * z (length slt + group_of mcnt r))"
  using assms
  by (simp add: genErr_spec_def Let_def independent_component_def scanline_component_def
      systematic_component_def)

text \<open>
  Claim C6, as amended, for the generator of the specification. The call of the script
  gives the generator the unique scanline indices, the number of records of each and the
  scanline uncertainties at the first record of each, as \<open>unique\<close> finds them in
  \<open>corIdx\<close>. When the match-up records are in the order of their scanline indices, two
  records with the same scanline index get the same error for the space counts (column
  1) and for the internal-target counts (column 2): the uncertainty of their scanline
  times the draw of their scanline, one draw per scanline and variable.
\<close>

theorem scanline_error_shared_within_group:
  assumes u: "unique corIdx = (slt, midx, mcnt)"
    and cs: "take_idx csUr midx = Inr rCSar" and ci: "take_idx cictUr midx = Inr rCICTar"
    and ord: "sorted corIdx"
    and rows: "list_all (\<lambda>row. length row = 7) Hr" and n: "length Hr = length corIdx"
    and r1: "r1 < length corIdx" and r2: "r2 < length corIdx"
    and same: "corIdx ! r1 = corIdx ! r2"
  shows "\<exists>E z'. genErr_spec z Hr sLict sTo rCSar rCICTar slt corLen mcnt = Inr (E, z')
     \<and> first_index slt (corIdx ! r1) < length slt
     \<and> slt ! first_index slt (corIdx ! r1) = corIdx ! r1
     \<and> E ! r1 ! 1 = csUr ! first_index corIdx (corIdx ! r1) * z (first_index slt (corIdx ! r1))
     \<and> E ! r2 ! 1 = E ! r1 ! 1
     \<and> E ! r1 ! 2 = cictUr ! first_index corIdx (corIdx ! r1)
                      * z (length slt + first_index slt (corIdx ! r1))
     \<and> E ! r2 ! 2 = E ! r1 ! 2"
proof -
  note U = unique_sorted[OF u ord]
  have lm: "length mcnt = length slt" and li: "length midx = length slt"
    using U(2,3) by simp_all
  have sm: "sum_list mcnt = length corIdx"
    unfolding U(3) U(1) by (rule sum_counts)
  note C = take_idx_Inr[OF cs] and I = take_idx_Inr[OF ci]
  define g1 where "g1 = group_of mcnt r1"
  define g2 where "g2 = group_of mcnt r2"
  have g1: "g1 < length slt" and g2: "g2 < length slt"
    using group_of_less[of r1 mcnt] group_of_less[of r2 mcnt] r1 r2 sm lm
    by (simp_all add: g1_def g2_def)
  have v1: "slt ! g1 = corIdx ! r1" and v2: "slt ! g2 = corIdx ! r2"
    unfolding g1_def g2_def U(3) U(1) using remdups_group[OF ord] r1 r2 by simp_all
  have eq: "g2 = g1"
    using v1 v2 same nth_eq_iff_index_eq[OF U(4) g2 g1] by simp
  have fi: "first_index slt (corIdx ! r1) = g1"
    using first_index_distinct[OF U(4) g1] v1 by simp
  have m1: "midx ! g1 = first_index corIdx (corIdx ! r1)"
    using g1 v1 by (simp add: U(2))
  have rc: "rCSar ! g1 = csUr ! first_index corIdx (corIdx ! r1)"
    and ri: "rCICTar ! g1 = cictUr ! first_index corIdx (corIdx ! r1)"
    using C I g1 li m1 by simp_all
  from genErr_spec_Inr[of mcnt slt rCSar rCICTar Hr z sLict sTo corLen]
  obtain E z' where E: "genErr_spec z Hr sLict sTo rCSar rCICTar slt corLen mcnt = Inr (E, z')"
    and ent: "\<forall>r < length Hr. E ! r ! 1 = rCSar ! group_of mcnt r * z (group_of mcnt r)
            \<and> E ! r ! 2 = rCICTar ! group_of mcnt r * z (length slt + group_of mcnt r)"
    using lm C I li sm n rows by auto
  have e1: "E ! r1 ! 1 = rCSar ! g1 * z g1" "E ! r1 ! 2 = rCICTar ! g1 * z (length slt + g1)"
    using ent r1 n by (simp_all add: g1_def)
  have "E ! r2 ! 1 = rCSar ! g2 * z g2" "E ! r2 ! 2 = rCICTar ! g2 * z (length slt + g2)"
    using ent r2 n by (simp_all add: g2_def)
  then have e2: "E ! r2 ! 1 = rCSar ! g1 * z g1" "E ! r2 ! 2 = rCICTar ! g1 * z (length slt + g1)"
    by (simp_all add: eq)
  show ?thesis
    using E g1 v1 e1 e2 by (intro exI[of _ E] exI[of _ z']) (simp add: fi rc ri)
qed

section \<open>The theorems on the small data set\<close>

lemma example_entries:
  "hd example_log = Call_odrP (d_Hd example_data) (d_Hr example_data) [1, 2] (Some [1, 0])
        (Some [1, 1, 1, 1, 0]) (Some example_Hs_reset) example_best"
  "gens example_log ! 0 = Call_genErr (d_Hr example_data) 2 3 [5, 6] [7, 8] [10, 20] [25] [2, 1]
        [[1, 5, 7, 1, 3, 3, 1], [1, 5, 7, 1, 3, 3, 1], [1, 6, 8, 1, 3, 3, 1]]"
  "gens example_log ! 1 = Call_genErr (d_Hr example_data) 2 3 [5, 6] [7, 8] [10, 20] [25] [2, 1]
        [[1, 5, 7, 1, 3, 3, 1], [1, 5, 7, 1, 3, 3, 1], [1, 6, 8, 1, 3, 3, 1]]"
  "fits example_log ! 0 = Call_odr4MC [[6, 11, 8, 13, 283], [7, 12, 9, 14, 293], [9, 14, 10, 15, 303]]
        [102, 202, 302] (d_Hr example_data) [1, 2] (Some [1, 0]) (Some [1, 1, 1, 1, 0])
        (Some example_Hs_reset)
        (example_trial_fit [[6, 11, 8, 13, 283], [7, 12, 9, 14, 293], [9, 14, 10, 15, 303]]
           [102, 202, 302])"
  "fits example_log ! 1 = Call_odr4MC [[6, 11, 8, 13, 283], [7, 12, 9, 14, 293], [9, 14, 10, 15, 303]]
        [102, 202, 302] (d_Hr example_data) [1, 2] (Some [1, 0]) (Some [1, 1, 1, 1, 0])
        (Some example_Hs_reset)
        (example_trial_fit [[6, 11, 8, 13, 283], [7, 12, 9, 14, 293], [9, 14, 10, 15, 303]]
           [102, 202, 302])"
  "gens example_log ! Suc 0 = gens example_log ! 0" "fits example_log ! Suc 0 = fits example_log ! 0"
  "length (fits example_log) = 2" "length (gens example_log) = 2"
  "saves example_log
     = [Call_savetxt (datadir @ [CHR 0x5C] @ ''Results'' @ [CHR 0x5C] @ ''n15_mcerrst_beta.txt'')
          [[1, 2, 4], [1, 2, 4]] '','']"
  by (simp_all add: example_log_def gens_def fits_def saves_def)

lemma example_entries_notime:
  "hd example_log_notime = Call_odrP (d_Hd example_data)
        [[1, 1, 1, 1, 1, 1, 1], [1, 1, 1, 1, 1, 1, 1], [1, 1, 1, 1, 1, 1, 1]]
        [1, 2] None None None example_best"
  "gens example_log_notime ! 0 = Call_genErr
        [[1, 1, 1, 1, 1, 1, 1], [1, 1, 1, 1, 1, 1, 1], [1, 1, 1, 1, 1, 1, 1]]
        2 0 [5, 6] [7, 8] [10, 20] [25] [2, 1]
        [[1, 5, 7, 1, 3, 1, 1], [1, 5, 7, 1, 3, 1, 1], [1, 6, 8, 1, 3, 1, 1]]"
  "fits example_log_notime ! 0 = Call_odr4MC [[6, 11, 8, 13, 281], [7, 12, 9, 14, 291], [9, 14, 10, 15, 301]]
        [102, 202, 302] [[1, 1, 1, 1, 1, 1, 1], [1, 1, 1, 1, 1, 1, 1], [1, 1, 1, 1, 1, 1, 1]]
        [1, 2] None None None
        (example_trial_fit [[6, 11, 8, 13, 281], [7, 12, 9, 14, 291], [9, 14, 10, 15, 301]]
           [102, 202, 302])"
  by (simp_all add: example_log_notime_def gens_def fits_def)

lemma example_world_resetHs:
  "resetHs example_world = resetHs_spec example_required 3"
  by (simp add: example_world_def)

lemma four_groups:
  "unique ordered_corIdx = ([10, 20], [0, 2], [2, 2])"
  "unique mixed_corIdx = ([10, 20], [0, 1], [2, 2])"
  "take_idx ordered_csUr [0, 2] = Inr [5, 6]" "take_idx ordered_cictUr [0, 2] = Inr [7, 8]"
  "take_idx mixed_csUr [0, 1] = Inr [5, 6]" "take_idx mixed_cictUr [0, 1] = Inr [7, 8]"
  by (simp_all add: unique_def Let_def take_idx_def ordered_corIdx_def mixed_corIdx_def
      ordered_csUr_def ordered_cictUr_def mixed_csUr_def mixed_cictUr_def)

lemma four_genErr:
  "map_sum id fst (genErr_spec counting_draws four_Hr 2 3 [5, 6] [7, 8] [10, 20] [25] [2, 2])
   = Inr [[5, 5, 21, 8, 75, 102, 11], [12, 5, 21, 15, 82, 102, 18],
          [19, 12, 32, 22, 89, 102, 25], [26, 12, 32, 29, 96, 102, 32]]"
  by (simp add: genErr_spec_def Let_def upt_small independent_component_def
      scanline_component_def systematic_component_def counting_draws_def four_Hr_def)

theorem trial_data_is_best_estimate_plus_error_witness:
  "script example_world False 2 ones_draws zero_memory 0 60
     = Inr \<lparr>r_log = example_log, r_mcb = [[1, 2, 4], [1, 2, 4]], r_exect = 60\<rparr>
   \<and> (1 :: nat) < 2
   \<and> length (odr_xplus (a_out (hd example_log))) = 5
   \<and> list_all (\<lambda>row. length row = length (odr_y (a_out (hd example_log))))
        (odr_xplus (a_out (hd example_log)))
   \<and> length (g_errStr (gens example_log ! 1)) = length (odr_y (a_out (hd example_log)))
   \<and> is_Call_odrP (hd example_log)
   \<and> a_X (fits example_log ! 1) = [[6, 11, 8, 13, 283], [7, 12, 9, 14, 293], [9, 14, 10, 15, 303]]
   \<and> a_X (fits example_log ! 1) ! 2 ! 0
      = odr_xplus (a_out (hd example_log)) ! 0 ! 2 + g_errStr (gens example_log ! 1) ! 2 ! 1
   \<and> a_X (fits example_log ! 1) ! 2 ! 0 = 9
   \<and> a_Y (fits example_log ! 1) ! 2
      = odr_y (a_out (hd example_log)) ! 2 + g_errStr (gens example_log ! 1) ! 2 ! 0
        + g_errStr (gens example_log ! 1) ! 2 ! 6
   \<and> a_Y (fits example_log ! 1) ! 2 = 302"
proof -
  have k: "(1 :: nat) < 2" by simp
  let ?r = "\<lparr>r_log = example_log, r_mcb = [[1, 2, 4], [1, 2, 4 :: real]], r_exect = 60 - 0 :: real\<rparr>"
  have X5: "length (odr_xplus (a_out (hd (r_log ?r)))) = 5"
    and XN: "list_all (\<lambda>row. length row = length (odr_y (a_out (hd (r_log ?r)))))
               (odr_xplus (a_out (hd (r_log ?r))))"
    and EN: "length (g_errStr (gens (r_log ?r) ! 1)) = length (odr_y (a_out (hd (r_log ?r))))"
    by (simp_all add: example_entries example_best_def)
  note t = trial_data_is_best_estimate_plus_error[OF example_run[of zero_memory 0 60] k X5 XN EN]
  show ?thesis
    using t[THEN conjunct1] example_run[of zero_memory 0 60]
    by (simp add: example_entries example_best_def)
qed

theorem every_trial_is_recorded_witness:
  "script example_world False 2 ones_draws zero_memory 0 60
     = Inr \<lparr>r_log = example_log, r_mcb = [[1, 2, 4], [1, 2, 4]], r_exect = 60\<rparr>
   \<and> (1 :: nat) < 2
   \<and> odr_info (a_out (fits example_log ! 1)) = 4
   \<and> odr_beta (a_out (fits example_log ! 1)) = [1, 2]
   \<and> [[1, 2, 4], [1, 2, 4]] ! 1 = odr_beta (a_out (fits example_log ! 1))
        @ [real_of_int (odr_info (a_out (fits example_log ! 1)))]
   \<and> map sv_table (saves example_log) = [[[1, 2, 4], [1, 2, 4]]]"
proof -
  have k: "(1 :: nat) < 2" by simp
  note t = every_trial_is_recorded[OF example_run[of zero_memory 0 60] k]
  show ?thesis
    using t[THEN conjunct1] example_run[of zero_memory 0 60]
    by (simp add: example_entries example_trial_fit_def)
qed

theorem persisted_table_witness:
  "script example_world False 2 ones_draws zero_memory 0 60
     = Inr \<lparr>r_log = example_log, r_mcb = [[1, 2, 4], [1, 2, 4]], r_exect = 60\<rparr>
   \<and> saves example_log
      = [Call_savetxt (datadir @ [CHR 0x5C] @ ''Results'' @ [CHR 0x5C] @ ''n15_mcerrst_beta.txt'')
           [[1, 2, 4], [1, 2, 4]] '','']
   \<and> length [[1, 2, 4], [1, 2, 4 :: real]] = 2
   \<and> length (a_beta0 (hd example_log)) + 1 = 3"
proof -
  note t = persisted_table[OF example_run[of zero_memory 0 60]]
  show ?thesis
    using t[THEN conjunct2, THEN conjunct2, THEN conjunct1] example_run[of zero_memory 0 60]
    by (simp add: example_entries)
qed

theorem trial_fit_reuses_best_fit_configuration_witness:
  "script example_world False 2 ones_draws zero_memory 0 60
     = Inr \<lparr>r_log = example_log, r_mcb = [[1, 2, 4], [1, 2, 4]], r_exect = 60\<rparr>
   \<and> (0 :: nat) < 2
   \<and> a_beta0 (fits example_log ! 0) = odr_beta (a_out (hd example_log))
   \<and> a_fixb (fits example_log ! 0) = Some [1, 0]
   \<and> a_fixb (hd example_log) = Some [1, 0]
   \<and> a_fixx (fits example_log ! 0) = a_fixx (hd example_log)
   \<and> a_Hs (fits example_log ! 0) = a_Hs (hd example_log)
   \<and> a_Hr (fits example_log ! 0) = a_Hr (hd example_log)"
proof -
  have k: "(0 :: nat) < 2" by simp
  note t = trial_fit_reuses_best_fit_configuration[OF example_run[of zero_memory 0 60] k]
  show ?thesis
    using t[THEN conjunct1] example_run[of zero_memory 0 60]
    by (simp add: example_entries example_best_def)
qed

theorem uncertainties_replaced_before_fits_witness:
  "script example_world False 2 ones_draws zero_memory 0 60
     = Inr \<lparr>r_log = example_log, r_mcb = [[1, 2, 4], [1, 2, 4]], r_exect = 60\<rparr>
   \<and> resetHs example_world = resetHs_spec example_required 3 \<and> (3 :: real) \<noteq> 0
   \<and> d_Hs example_data = [[0, 0, 0, 0, 2, 0, 0], [0, 0, 0, 0, 2, 0, 0], [0, 0, 0, 0, 2, 0, 0]]
   \<and> a_Hs (hd example_log)
      = Some [[0, 0, 0, 0, 2, 3, 0], [0, 0, 0, 0, 2, 3, 0], [0, 0, 0, 0, 2, 3, 0]]
   \<and> a_Hs (fits example_log ! 0) = a_Hs (hd example_log)
   \<and> g_sLict (gens example_log ! 0) = 2
   \<and> g_sTo (gens example_log ! 0) = 3
   \<and> script example_world True 2 ones_draws zero_memory 0 60
     = Inr \<lparr>r_log = example_log_notime, r_mcb = [[1, 2, 4], [1, 2, 4]], r_exect = 60\<rparr>
   \<and> d_Hr example_data = [[1, 1, 1, 1, 1, 0, 1], [1, 1, 1, 1, 1, 0, 1], [1, 1, 1, 1, 1, 0, 1]]
   \<and> a_Hr (hd example_log_notime)
      = [[1, 1, 1, 1, 1, 1, 1], [1, 1, 1, 1, 1, 1, 1], [1, 1, 1, 1, 1, 1, 1]]
   \<and> a_Hr (fits example_log_notime ! 0) = a_Hr (hd example_log_notime)
   \<and> g_Hr (gens example_log_notime ! 0) = a_Hr (hd example_log_notime)"
proof -
  have ph: "(3 :: real) \<noteq> 0" by simp
  note t = uncertainties_replaced_before_fits[OF example_run_notime[of zero_memory 0 60]
      example_world_resetHs ph]
    and u = uncertainties_replaced_before_fits[OF example_run[of zero_memory 0 60]
      example_world_resetHs ph]
  show ?thesis
    using t[THEN conjunct1] u[THEN conjunct1]
      example_run_notime[of zero_memory 0 60] example_run[of zero_memory 0 60]
    by (simp add: example_entries example_entries_notime example_data_simps
        example_world_resetHs example_Hs_reset_def)
qed

text \<open>
  Against claim C6 as it is stated. Four match-ups whose scanline indices are 10, 20,
  10, 20: \<open>unique\<close> finds the scanlines 10 and 20 with two records each, the same
  arguments of the call as for the indices 10, 10, 20, 20. The first and the third
  record are on scanline 10, and their errors for the space counts are 5 and 12, those
  for the internal-target counts 21 and 32.
\<close>

theorem scanline_error_counterexample:
  "unique mixed_corIdx = ([10, 20], [0, 1], [2, 2])
   \<and> unique ordered_corIdx = ([10, 20], [0, 2], [2, 2])
   \<and> take_idx mixed_csUr [0, 1] = Inr [5, 6] \<and> take_idx mixed_cictUr [0, 1] = Inr [7, 8]
   \<and> take_idx ordered_csUr [0, 2] = Inr [5, 6] \<and> take_idx ordered_cictUr [0, 2] = Inr [7, 8]
   \<and> mixed_corIdx ! 0 = 10 \<and> mixed_corIdx ! 2 = 10
   \<and> map_sum id fst (genErr_spec counting_draws four_Hr 2 3 [5, 6] [7, 8] [10, 20] [25] [2, 2])
      = Inr [[5, 5, 21, 8, 75, 102, 11], [12, 5, 21, 15, 82, 102, 18],
             [19, 12, 32, 22, 89, 102, 25], [26, 12, 32, 29, 96, 102, 32]]
   \<and> [[5, 5, 21, 8, 75, 102, 11], [12, 5, 21, 15, 82, 102, 18],
       [19, 12, 32, 22, 89, 102, 25], [26, 12, 32, 29, 96, 102, 32 :: real]] ! 0 ! 1 = 5
   \<and> [[5, 5, 21, 8, 75, 102, 11], [12, 5, 21, 15, 82, 102, 18],
       [19, 12, 32, 22, 89, 102, 25], [26, 12, 32, 29, 96, 102, 32 :: real]] ! 2 ! 1 = 12
   \<and> (5 :: real) \<noteq> 12"
  using four_groups four_genErr by (simp add: mixed_corIdx_def)

theorem scanline_error_shared_within_group_witness:
  "unique ordered_corIdx = ([10, 20], [0, 2], [2, 2])
   \<and> take_idx ordered_csUr [0, 2] = Inr [5, 6] \<and> take_idx ordered_cictUr [0, 2] = Inr [7, 8]
   \<and> sorted ordered_corIdx
   \<and> list_all (\<lambda>row. length row = 7) four_Hr \<and> length four_Hr = length ordered_corIdx
   \<and> (2 :: nat) < length ordered_corIdx \<and> (3 :: nat) < length ordered_corIdx
   \<and> ordered_corIdx ! 2 = ordered_corIdx ! 3
   \<and> map_sum id fst (genErr_spec counting_draws four_Hr 2 3 [5, 6] [7, 8] [10, 20] [25] [2, 2])
      = Inr [[5, 5, 21, 8, 75, 102, 11], [12, 5, 21, 15, 82, 102, 18],
             [19, 12, 32, 22, 89, 102, 25], [26, 12, 32, 29, 96, 102, 32]]
   \<and> first_index [10, 20] (ordered_corIdx ! 2) = 1
   \<and> ordered_csUr ! first_index ordered_corIdx (ordered_corIdx ! 2) * counting_draws 1 = 12
   \<and> ordered_cictUr ! first_index ordered_corIdx (ordered_corIdx ! 2) * counting_draws (2 + 1) = 32"
proof -
  have ord: "sorted ordered_corIdx"
    and rows: "list_all (\<lambda>row. length row = 7) four_Hr"
    and n: "length four_Hr = length ordered_corIdx"
    and r1: "(2 :: nat) < length ordered_corIdx" and r2: "(3 :: nat) < length ordered_corIdx"
    and same: "ordered_corIdx ! 2 = ordered_corIdx ! 3"
    by (simp_all add: ordered_corIdx_def four_Hr_def)
  note t = scanline_error_shared_within_group[OF four_groups(1) four_groups(3) four_groups(4)
      ord rows n r1 r2 same, of counting_draws 2 3 "[25]"]
  show ?thesis
    using t four_groups four_genErr ord rows n r1 r2 same
    by (simp add: ordered_corIdx_def ordered_csUr_def ordered_cictUr_def counting_draws_def)
qed

end
